theory Spec2Isabelle
  imports Complex_Main
begin

section \<open>JavaScript values\<close>

text \<open>
  A JavaScript number is a double. The codec never computes with numbers: it passes them
  through, reads a date's time value and builds a date from a number. Finite doubles are
  rationals, so a number is a rational, NaN or one of the two infinities (the two zeros
  are not told apart; no function below does).
\<close>

datatype jsnum = Fin rat | NaN | PosInf | NegInf

text \<open>
  A \<open>Date\<close> object holds a time value: an integral number of milliseconds since the epoch,
  or NaN (\<open>None\<close>) for an invalid date. An object is the list of its own enumerable
  string-keyed properties in enumeration order.
\<close>

datatype jsval =
    JUndefined
  | JNull
  | JBool bool
  | JNum jsnum
  | JBigInt int
  | JStr string
  | JDate "int option"
  | JArr "jsval list"
  | JObj "(string \<times> jsval) list"

subsection \<open>Dates\<close>

text \<open>\<open>Date.prototype.getTime\<close>: the time value, NaN for an invalid date.\<close>

definition getTime :: "int option \<Rightarrow> jsnum" where
  "getTime t = (case t of None \<Rightarrow> NaN | Some n \<Rightarrow> Fin (of_int n))"

text \<open>
  ECMAScript's \<open>TimeClip\<close>, applied by \<open>new Date(number)\<close>: a non-finite number or one
  beyond 8.64e15 in magnitude gives an invalid date, any other is truncated towards zero.
\<close>

definition TimeClip :: "jsnum \<Rightarrow> int option" where
  "TimeClip n =
     (case n of
        Fin q \<Rightarrow>
          (if \<bar>q\<bar> > 8640000000000000 then None
           else Some (if 0 \<le> q then \<lfloor>q\<rfloor> else \<lceil>q\<rceil>))
      | _ \<Rightarrow> None)"

definition new_Date :: "jsnum \<Rightarrow> jsval" where
  "new_Date n = JDate (TimeClip n)"


text \<open>
  The time value of a UTC calendar date, as ECMAScript computes it (\<open>DayFromYear\<close>,
  \<open>MakeDay\<close>, \<open>MakeTime\<close>, \<open>MakeDate\<close>); the month counts from 1 as in an ISO string.
\<close>

definition InLeapYear :: "int \<Rightarrow> bool" where
  "InLeapYear y = ((y mod 4 = 0 \<and> y mod 100 \<noteq> 0) \<or> y mod 400 = 0)"

definition DayFromYear :: "int \<Rightarrow> int" where
  "DayFromYear y =
     365 * (y - 1970) + (y - 1969) div 4 - (y - 1901) div 100 + (y - 1601) div 400"

definition month_start :: "int \<Rightarrow> int \<Rightarrow> int" where
  "month_start y m =
     [0, 31, 59, 90, 120, 151, 181, 212, 243, 273, 304, 334] ! nat (m - 1)
       + (if InLeapYear y \<and> 2 < m then 1 else 0)"

definition MakeDay :: "int \<Rightarrow> int \<Rightarrow> int \<Rightarrow> int" where
  "MakeDay y m d = DayFromYear y + month_start y m + d - 1"

definition MakeTime :: "int \<Rightarrow> int \<Rightarrow> int \<Rightarrow> int \<Rightarrow> int" where
  "MakeTime h mi s ms = h * 3600000 + mi * 60000 + s * 1000 + ms"

definition utc_date :: "int \<Rightarrow> int \<Rightarrow> int \<Rightarrow> int \<Rightarrow> int \<Rightarrow> int \<Rightarrow> int \<Rightarrow> jsval" where
  "utc_date y m d h mi s ms = JDate (Some (MakeDay y m d * 86400000 + MakeTime h mi s ms))"

subsection \<open>Object helpers\<close>

text \<open>The decimal name of an array index, the property key \<open>Object.entries\<close> reports.\<close>

function string_of_nat :: "nat \<Rightarrow> string" where
  "string_of_nat n =
     (if n < 10 then [char_of (48 + n)]
      else string_of_nat (n div 10) @ [char_of (48 + n mod 10)])"
  by pat_completeness auto
termination
  by (relation "measure id") auto

declare string_of_nat.simps [simp del]

text \<open>
  \<open>Object.entries\<close>: the properties of an object, index and element of an array, nothing
  for a date (it has no own enumerable property).
\<close>

fun entries :: "jsval \<Rightarrow> (string \<times> jsval) list" where
  "entries (JObj es) = es"
| "entries (JArr xs) = zip (map string_of_nat [0..<length xs]) xs"
| "entries v = []"

text \<open>\<open>value && typeof value === "object"\<close>: objects, arrays and dates (null is falsy).\<close>

fun is_object :: "jsval \<Rightarrow> bool" where
  "is_object (JObj es) = True"
| "is_object (JArr xs) = True"
| "is_object (JDate t) = True"
| "is_object v = False"

section \<open>Schemas\<close>

text \<open>
  A Zod schema node. Every node carries its identity \<open>zid\<close> (JavaScript object identity:
  two occurrences with one identity are one shared object) and its definition, tagged as
  \<open>def.type\<close> tags it; the classes the code tests with \<open>instanceof\<close> are these tags.
  Schemas are immutable and built bottom-up, so the eager structure is a tree with
  sharing; a cycle goes through the getter of a lazy node, a closure that reads a binding
  when it is called. A getter either throws or returns the value of a binding (\<open>None\<close>:
  it returns something that is no schema).

  The metadata the repository keeps per node in its registry is part of the node:
  \<open>DZid\<close> is a node that \<open>isZid\<close> accepts, with its registered table name, and a
  transform or pipe carries the original schema of a registered brand, if any.
  A record has a key type and, unless it was built from one argument, a value type.
\<close>

datatype getter = GetterThrows | GetterReturns "nat option" | GetterBuilds nat "nat list"

datatype zschema = Zod (zid: nat) (zdef: zdef)
and zdef =
    DString
  | DNumber
  | DBigInt
  | DBoolean
  | DDate
  | DNull
  | DNan
  | DArray zschema
  | DObject "(string \<times> zschema) list"
  | DUnion "zschema list"
  | DDiscriminatedUnion string "zschema list"
  | DLiteral "jsval list"
  | DEnum "string list"
  | DRecord zschema "zschema option"
  | DTransform "zschema option"
  | DPipe "zschema option"
  | DNullable zschema
  | DTuple "zschema list"
  | DLazy getter
  | DAny
  | DUnknown
  | DUndefined
  | DVoid
  | DNever
  | DIntersection zschema zschema
  | DOptional zschema
  | DDefault zschema jsval
  | DPrefault zschema jsval
  | DZid "string option"
  | DOther string

lemma size_mem: "s \<in> set xs \<Longrightarrow> size s < Suc (size_list size xs)"
  by (induction xs) auto

lemma size_mem_snd:
  "(k, s) \<in> set sh \<Longrightarrow> size s < Suc (size_list (size_prod (\<lambda>_. 0) size) sh)"
  by (induction sh) auto

section \<open>Validators\<close>

text \<open>
  A Convex validator: its kind, whether it is optional, and the \<open>_zodDefault\<close> property
  the mapper attaches to record a default value.
\<close>

datatype validator = Validator (vkind: vkind) (isOptional: bool) (zodDefault: "jsval option")
and vkind =
    KAny
  | KString
  | KFloat64
  | KInt64
  | KBoolean
  | KNull
  | KId string
  | KArray validator
  | KObject "(string \<times> validator) list"
  | KUnion "validator list"
  | KLiteral jsval
  | KRecord validator validator

definition required :: "vkind \<Rightarrow> validator" where
  "required k = Validator k False None"

definition v_any :: validator where "v_any = required KAny"
definition v_string :: validator where "v_string = required KString"
definition v_float64 :: validator where "v_float64 = required KFloat64"
definition v_int64 :: validator where "v_int64 = required KInt64"
definition v_boolean :: validator where "v_boolean = required KBoolean"
definition v_null :: validator where "v_null = required KNull"
definition v_id :: "string \<Rightarrow> validator" where "v_id t = required (KId t)"
definition v_array :: "validator \<Rightarrow> validator" where "v_array e = required (KArray e)"
definition v_object :: "(string \<times> validator) list \<Rightarrow> validator" where
  "v_object fs = required (KObject fs)"
definition v_union :: "validator list \<Rightarrow> validator" where "v_union vs = required (KUnion vs)"
definition v_literal :: "jsval \<Rightarrow> validator" where "v_literal l = required (KLiteral l)"

text \<open>
  What a call gives: the value it returns, or the error it throws, given by its message.
\<close>

datatype 'a outcome = Returned 'a | Raised string

text \<open>
  Convex's \<open>v.record\<close> refuses an optional key or value validator (a native record
  cannot mark its values optional) and throws; the other constructors take any
  validators.
\<close>

definition v_record :: "validator \<Rightarrow> validator \<Rightarrow> validator outcome" where
  "v_record k e =
     (if isOptional k then Raised ''Record validator cannot have optional keys''
      else if isOptional e then Raised ''Record validator cannot have optional values''
      else Returned (required (KRecord k e)))"

text \<open>
  \<open>v.optional\<close> builds a new validator of the same kind with the optional flag set; a
  property added to the argument from outside is not on the new object.
\<close>

definition v_optional :: "validator \<Rightarrow> validator" where
  "v_optional e = Validator (vkind e) True None"

section \<open>The codec registry and the schema library\<close>

text \<open>
  Modelled from the spec: the registry module (\<open>findBaseCodec\<close>, \<open>isDateSchema\<close>) is
  not among the sources. An entry is a recogniser with a validator builder, an encoder and
  a decoder; \<open>findBaseCodec\<close> scans the entries in order and returns the first whose
  recogniser matches (a recogniser that throws counts as not matching).
\<close>

record base_codec =
  check :: "zschema \<Rightarrow> bool"
  toValidator :: "zschema \<Rightarrow> validator"
  toConvex :: "jsval \<Rightarrow> zschema \<Rightarrow> jsval"
  fromConvex :: "jsval \<Rightarrow> zschema \<Rightarrow> jsval"

definition findBaseCodec :: "base_codec list \<Rightarrow> zschema \<Rightarrow> base_codec option" where
  "findBaseCodec reg schema = find (\<lambda>codec. check codec schema) reg"

text \<open>
  What the codec takes from outside: the registry, the registry module's classification of
  a schema as date-bearing, and Zod's own \<open>parse\<close>, of which the codec only observes
  whether it throws.
\<close>

record ext =
  registry :: "base_codec list"
  isDateSchema :: "zschema \<Rightarrow> bool"
  parse_ok :: "zschema \<Rightarrow> jsval \<Rightarrow> bool"

section \<open>The value codec\<close>

fun basicToConvex :: "jsval \<Rightarrow> jsval" where
  "basicToConvex JUndefined = JUndefined"
| "basicToConvex JNull = JNull"
| "basicToConvex (JDate t) = JNum (getTime t)"
| "basicToConvex (JArr xs) = JArr (map basicToConvex xs)"
| "basicToConvex (JObj es) =
     JObj (map (\<lambda>(k, v). (k, basicToConvex v)) (filter (\<lambda>(k, v). v \<noteq> JUndefined) es))"
| "basicToConvex v = v"

lemma size_map_of:
  "map_of sh k = Some s \<Longrightarrow> size s < Suc (size_list (size_prod (\<lambda>_. 0) size) sh)"
  by (induction sh) (auto split: if_splits)

lemma size_find: "find P xs = Some s \<Longrightarrow> size s < Suc (size_list size xs)"
  by (induction xs) (auto split: if_splits)

text \<open>The \<open>unwrap()\<close> method of the four wrapper classes the codec looks through.\<close>

fun unwrap :: "zschema \<Rightarrow> zschema option" where
  "unwrap (Zod i (DOptional inner)) = Some inner"
| "unwrap (Zod i (DNullable inner)) = Some inner"
| "unwrap (Zod i (DDefault inner d)) = Some inner"
| "unwrap (Zod i (DPrefault inner d)) = Some inner"
| "unwrap schema = None"

lemma size_unwrap: "unwrap schema = Some inner \<Longrightarrow> size inner < size schema"
  by (induction schema rule: unwrap.induct) auto

fun is_number :: "jsval \<Rightarrow> bool" where
  "is_number (JNum n) = True"
| "is_number v = False"

fun the_number :: "jsval \<Rightarrow> jsnum" where
  "the_number (JNum n) = n"
| "the_number v = NaN"

fun is_Date :: "jsval \<Rightarrow> bool" where
  "is_Date (JDate t) = True"
| "is_Date v = False"

fun the_time :: "jsval \<Rightarrow> int option" where
  "the_time (JDate t) = t"
| "the_time v = None"

fun is_Array :: "jsval \<Rightarrow> bool" where
  "is_Array (JArr xs) = True"
| "is_Array v = False"

fun the_items :: "jsval \<Rightarrow> jsval list" where
  "the_items (JArr xs) = xs"
| "the_items v = []"

text \<open>
  \<open>schemaToConvex\<close>. A record built without a value type hands \<open>undefined\<close> down as the
  schema; no class test holds of it, so the value takes the default path (no registry
  entry is taken to recognise \<open>undefined\<close>). The union loop returns from the first option
  whose \<open>parse\<close> does not throw.
\<close>

function schemaToConvex :: "ext \<Rightarrow> jsval \<Rightarrow> zschema \<Rightarrow> jsval" where
  "schemaToConvex x value schema =
    (if value = JUndefined \<or> value = JNull then value
     else case findBaseCodec (registry x) schema of
       Some codec \<Rightarrow> toConvex codec value schema
     | None \<Rightarrow>
        (case unwrap schema of
           Some inner \<Rightarrow> schemaToConvex x value inner
         | None \<Rightarrow>
            if zdef schema = DDate \<and> is_Date value then JNum (getTime (the_time value))
            else
              (case zdef schema of
                 DArray element \<Rightarrow>
                   (if \<not> is_Array value then value
                    else JArr (map (\<lambda>item. schemaToConvex x item element) (the_items value)))
               | DObject shape \<Rightarrow>
                   (if \<not> is_object value then value
                    else JObj (map (\<lambda>(k, v). (k, case map_of shape k of
                                                     Some s \<Rightarrow> schemaToConvex x v s
                                                   | None \<Rightarrow> basicToConvex v))
                               (filter (\<lambda>(k, v). v \<noteq> JUndefined) (entries value))))
               | DUnion options \<Rightarrow>
                   (case find (\<lambda>option. parse_ok x option value) options of
                      Some option \<Rightarrow> schemaToConvex x value option
                    | None \<Rightarrow> basicToConvex value)
               | DRecord keyType valueType \<Rightarrow>
                   (if \<not> is_object value then value
                    else JObj (map (\<lambda>(k, v). (k, case valueType of
                                                     Some s \<Rightarrow> schemaToConvex x v s
                                                   | None \<Rightarrow> basicToConvex v))
                               (filter (\<lambda>(k, v). v \<noteq> JUndefined) (entries value))))
               | _ \<Rightarrow> basicToConvex value)))"
  by pat_completeness auto
termination
  apply (relation "measure (\<lambda>(x, v, s). size s)")
      apply (auto dest: size_unwrap)
     apply (case_tac schema; simp; fastforce dest: size_map_of size_find)+
  done

declare schemaToConvex.simps [simp del]

text \<open>
  \<open>toConvexJS(schema, value)\<close>; a missing (falsy) schema makes the function convert the
  schema argument itself, here \<open>undefined\<close>. \<open>toConvexJS1\<close> is the call with one argument.
\<close>

definition toConvexJS :: "ext \<Rightarrow> zschema option \<Rightarrow> jsval \<Rightarrow> jsval" where
  "toConvexJS x schema value =
     (case schema of
        None \<Rightarrow> basicToConvex JUndefined
      | Some s \<Rightarrow> schemaToConvex x value s)"

definition toConvexJS1 :: "jsval \<Rightarrow> jsval" where
  "toConvexJS1 value = basicToConvex value"

text \<open>
  \<open>fromConvexJS\<close>. The union loop decodes with each option in turn and returns the first
  decoded value that the option's \<open>parse\<close> accepts.
\<close>

function fromConvexJS :: "ext \<Rightarrow> jsval \<Rightarrow> zschema \<Rightarrow> jsval" where
  "fromConvexJS x value schema =
    (if value = JUndefined \<or> value = JNull then value
     else case findBaseCodec (registry x) schema of
       Some codec \<Rightarrow> fromConvex codec value schema
     | None \<Rightarrow>
        (case unwrap schema of
           Some inner \<Rightarrow> fromConvexJS x value inner
         | None \<Rightarrow>
            if zdef schema = DDate \<and> is_number value then new_Date (the_number value)
            else if isDateSchema x schema \<and> is_number value then new_Date (the_number value)
            else
              (case zdef schema of
                 DArray element \<Rightarrow>
                   (if \<not> is_Array value then value
                    else JArr (map (\<lambda>item. fromConvexJS x item element) (the_items value)))
               | DObject shape \<Rightarrow>
                   (if \<not> is_object value then value
                    else JObj (map (\<lambda>(k, v). (k, case map_of shape k of
                                                     Some s \<Rightarrow> fromConvexJS x v s
                                                   | None \<Rightarrow> v))
                               (entries value)))
               | DUnion options \<Rightarrow>
                   (case find (\<lambda>(option, decoded). parse_ok x option decoded)
                           (map (\<lambda>option. (option, fromConvexJS x value option)) options) of
                      Some (option, decoded) \<Rightarrow> decoded
                    | None \<Rightarrow> value)
               | DRecord keyType valueType \<Rightarrow>
                   (if \<not> is_object value then value
                    else JObj (map (\<lambda>(k, v). (k, case valueType of
                                                     Some s \<Rightarrow> fromConvexJS x v s
                                                   | None \<Rightarrow> v))
                               (entries value)))
               | _ \<Rightarrow> value)))"
  by pat_completeness auto
termination
  apply (relation "measure (\<lambda>(x, v, s). size s)")
      apply (auto dest: size_unwrap)
     apply (case_tac schema; simp; fastforce dest: size_map_of size_mem)+
  done

declare fromConvexJS.simps [simp del]

section \<open>Properties of the codec\<close>

fun date_schema :: "zschema \<Rightarrow> bool" where
  "date_schema (Zod i DDate) = True"
| "date_schema (Zod i (DOptional inner)) = date_schema inner"
| "date_schema (Zod i (DNullable inner)) = date_schema inner"
| "date_schema (Zod i (DDefault inner d)) = date_schema inner"
| "date_schema (Zod i (DPrefault inner d)) = date_schema inner"
| "date_schema schema = False"

function unregistered :: "ext \<Rightarrow> zschema \<Rightarrow> bool" where
  "unregistered x schema =
     (findBaseCodec (registry x) schema = None \<and>
      (case unwrap schema of Some inner \<Rightarrow> unregistered x inner | None \<Rightarrow> True))"
  by pat_completeness auto
termination
  by (relation "measure (\<lambda>(x, s). size s)") (auto dest: size_unwrap)

declare unregistered.simps [simp del]

lemma schemaToConvex_nullish [simp]:
  "schemaToConvex x JUndefined schema = JUndefined"
  "schemaToConvex x JNull schema = JNull"
  by (simp_all add: schemaToConvex.simps)

lemma fromConvexJS_nullish [simp]:
  "fromConvexJS x JUndefined schema = JUndefined"
  "fromConvexJS x JNull schema = JNull"
  by (simp_all add: fromConvexJS.simps)

lemma schemaToConvex_unwrap:
  "findBaseCodec (registry x) schema = None \<Longrightarrow> unwrap schema = Some inner \<Longrightarrow>
   schemaToConvex x value schema = schemaToConvex x value inner"
  by (subst schemaToConvex.simps) (simp add: schemaToConvex.simps[of _ _ inner])

lemma fromConvexJS_unwrap:
  "findBaseCodec (registry x) schema = None \<Longrightarrow> unwrap schema = Some inner \<Longrightarrow>
   fromConvexJS x value schema = fromConvexJS x value inner"
  by (subst fromConvexJS.simps) (simp add: fromConvexJS.simps[of _ _ inner])

lemma schemaToConvex_Date:
  "findBaseCodec (registry x) (Zod i DDate) = None \<Longrightarrow>
   schemaToConvex x (JDate t) (Zod i DDate) = JNum (getTime t)"
  by (subst schemaToConvex.simps) simp

lemma fromConvexJS_Date:
  "findBaseCodec (registry x) (Zod i DDate) = None \<Longrightarrow>
   fromConvexJS x (JNum n) (Zod i DDate) = new_Date n"
  by (subst fromConvexJS.simps) simp

lemma fromConvexJS_isDateSchema:
  "findBaseCodec (registry x) schema = None \<Longrightarrow> unwrap schema = None \<Longrightarrow>
   isDateSchema x schema \<Longrightarrow> fromConvexJS x (JNum n) schema = new_Date n"
  by (subst fromConvexJS.simps) simp


lemma date_schema_codec:
  "date_schema s \<Longrightarrow> unregistered x s \<Longrightarrow>
   schemaToConvex x (JDate t) s = JNum (getTime t) \<and> fromConvexJS x (JNum n) s = new_Date n"
proof (induction s rule: date_schema.induct)
  case (1 i)
  then show ?case
    by (simp add: unregistered.simps[of x "Zod i DDate"] schemaToConvex_Date fromConvexJS_Date)
next
  case (2 i inner)
  then show ?case
    by (simp add: unregistered.simps[of x "Zod i (DOptional inner)"]
          schemaToConvex_unwrap fromConvexJS_unwrap)
next
  case (3 i inner)
  then show ?case
    by (simp add: unregistered.simps[of x "Zod i (DNullable inner)"]
          schemaToConvex_unwrap fromConvexJS_unwrap)
next
  case (4 i inner d)
  then show ?case
    by (simp add: unregistered.simps[of x "Zod i (DDefault inner d)"]
          schemaToConvex_unwrap fromConvexJS_unwrap)
next
  case (5 i inner d)
  then show ?case
    by (simp add: unregistered.simps[of x "Zod i (DPrefault inner d)"]
          schemaToConvex_unwrap fromConvexJS_unwrap)
qed simp_all

lemma utc_2024: "utc_date 2024 1 1 0 0 0 0 = JDate (Some 1704067200000)"
  by (simp add: utc_date_def MakeDay_def MakeTime_def DayFromYear_def month_start_def InLeapYear_def)




fun wire_safe :: "jsval \<Rightarrow> bool" where
  "wire_safe (JDate t) = False"
| "wire_safe (JArr xs) = (\<forall>item\<in>set xs. wire_safe item)"
| "wire_safe (JObj es) = (\<forall>(k, v)\<in>set es. v \<noteq> JUndefined \<and> wire_safe v)"
| "wire_safe v = True"

lemma basicToConvex_wire_safe: "wire_safe v \<Longrightarrow> basicToConvex v = v"
proof (induction v rule: wire_safe.induct)
  case (2 xs)
  then show ?case by (simp add: map_idI)
next
  case (3 es)
  then have "filter (\<lambda>(k, v). v \<noteq> JUndefined) es = es"
    by (auto intro!: filter_True)
  moreover from 3 have "map (\<lambda>(k, v). (k, basicToConvex v)) es = es"
    by (auto intro!: map_idI)
  ultimately show ?case by simp
qed simp_all



fun is_string :: "jsval \<Rightarrow> bool" where
  "is_string (JStr s) = True"
| "is_string v = False"

fun is_boolean :: "jsval \<Rightarrow> bool" where
  "is_boolean (JBool b) = True"
| "is_boolean v = False"

fun is_bigint :: "jsval \<Rightarrow> bool" where
  "is_bigint (JBigInt n) = True"
| "is_bigint v = False"

fun is_finite_number :: "jsval \<Rightarrow> bool" where
  "is_finite_number (JNum (Fin q)) = True"
| "is_finite_number v = False"

fun is_valid_Date :: "jsval \<Rightarrow> bool" where
  "is_valid_Date (JDate (Some t)) = (\<bar>t\<bar> \<le> 8640000000000000)"
| "is_valid_Date v = False"

fun is_enum_member :: "string list \<Rightarrow> jsval \<Rightarrow> bool" where
  "is_enum_member vs (JStr s) = (s \<in> set vs)"
| "is_enum_member vs v = False"

fun is_plain_object :: "jsval \<Rightarrow> bool" where
  "is_plain_object (JObj es) = True"
| "is_plain_object v = False"

lemma size_zip_left:
  "(s, v) \<in> set (zip xs ys) \<Longrightarrow> size s < Suc (size_list size xs)"
  by (rule size_mem) (rule set_zip_leftD)

function accepts :: "zschema \<Rightarrow> jsval \<Rightarrow> bool" where
  "accepts (Zod i DString) v = is_string v"
| "accepts (Zod i DNumber) v = is_finite_number v"
| "accepts (Zod i DBigInt) v = is_bigint v"
| "accepts (Zod i DBoolean) v = is_boolean v"
| "accepts (Zod i DDate) v = is_valid_Date v"
| "accepts (Zod i DNull) v = (v = JNull)"
| "accepts (Zod i DNan) v = (v = JNum NaN)"
| "accepts (Zod i DAny) v = True"
| "accepts (Zod i DUnknown) v = True"
| "accepts (Zod i DUndefined) v = (v = JUndefined)"
| "accepts (Zod i DVoid) v = (v = JUndefined)"
| "accepts (Zod i DNever) v = False"
| "accepts (Zod i (DLiteral vals)) v = (v \<in> set vals)"
| "accepts (Zod i (DEnum vs)) v = is_enum_member vs v"
| "accepts (Zod i (DOptional inner)) v = (v = JUndefined \<or> accepts inner v)"
| "accepts (Zod i (DNullable inner)) v = (v = JNull \<or> accepts inner v)"
| "accepts (Zod i (DDefault inner d)) v = (v = JUndefined \<or> accepts inner v)"
| "accepts (Zod i (DPrefault inner d)) v = (v = JUndefined \<or> accepts inner v)"
| "accepts (Zod i (DArray element)) v =
     (is_Array v \<and> (\<forall>item\<in>set (the_items v). accepts element item))"
| "accepts (Zod i (DTuple items)) v =
     (is_Array v \<and> length (the_items v) = length items \<and>
      (\<forall>(s, item)\<in>set (zip items (the_items v)). accepts s item))"
| "accepts (Zod i (DObject shape)) v =
     (is_plain_object v \<and>
      (\<forall>(k, s)\<in>set shape.
         accepts s (case map_of (entries v) k of Some f \<Rightarrow> f | None \<Rightarrow> JUndefined)))"
| "accepts (Zod i (DRecord keyType valueType)) v =
     (is_plain_object v \<and>
      (case valueType of
         Some s \<Rightarrow> (\<forall>(k, f)\<in>set (entries v). accepts s f)
       | None \<Rightarrow> False))"
| "accepts (Zod i (DUnion options)) v = (\<exists>option\<in>set options. accepts option v)"
| "accepts (Zod i (DDiscriminatedUnion k options)) v = False"
| "accepts (Zod i (DTransform b)) v = False"
| "accepts (Zod i (DPipe b)) v = False"
| "accepts (Zod i (DLazy g)) v = False"
| "accepts (Zod i (DIntersection a b)) v = False"
| "accepts (Zod i (DZid t)) v = is_string v"
| "accepts (Zod i (DOther t)) v = False"
  by pat_completeness auto
termination
  by (relation "measure (\<lambda>(s, v). size s)")
     (auto dest: size_mem size_mem_snd size_zip_left)

definition first_revalidating :: "ext \<Rightarrow> zschema list \<Rightarrow> jsval \<Rightarrow> zschema option" where
  "first_revalidating x options w =
     find (\<lambda>option. parse_ok x option (fromConvexJS x w option)) options"







lemma schemaToConvex_Object:
  "findBaseCodec (registry x) (Zod i (DObject shape)) = None \<Longrightarrow>
   schemaToConvex x (JObj es) (Zod i (DObject shape)) =
     JObj (map (\<lambda>(k, v). (k, case map_of shape k of
                               Some s \<Rightarrow> schemaToConvex x v s
                             | None \<Rightarrow> basicToConvex v))
            (filter (\<lambda>(k, v). v \<noteq> JUndefined) es))"
  by (subst schemaToConvex.simps) simp

lemma fromConvexJS_Object:
  "findBaseCodec (registry x) (Zod i (DObject shape)) = None \<Longrightarrow>
   fromConvexJS x (JObj es) (Zod i (DObject shape)) =
     JObj (map (\<lambda>(k, v). (k, case map_of shape k of
                               Some s \<Rightarrow> fromConvexJS x v s
                             | None \<Rightarrow> v)) es)"
  by (subst fromConvexJS.simps) simp



lemma schemaToConvex_Union:
  "findBaseCodec (registry x) (Zod i (DUnion options)) = None \<Longrightarrow>
   v \<noteq> JUndefined \<Longrightarrow> v \<noteq> JNull \<Longrightarrow>
   schemaToConvex x v (Zod i (DUnion options)) =
     (case find (\<lambda>option. parse_ok x option v) options of
        Some option \<Rightarrow> schemaToConvex x v option
      | None \<Rightarrow> basicToConvex v)"
  by (subst schemaToConvex.simps) simp

lemma find_decoded:
  "find (\<lambda>(option, decoded). P option decoded) (map (\<lambda>option. (option, f option)) options) =
   map_option (\<lambda>option. (option, f option)) (find (\<lambda>option. P option (f option)) options)"
  by (induction options) auto

lemma fromConvexJS_Union:
  "findBaseCodec (registry x) (Zod i (DUnion options)) = None \<Longrightarrow>
   w \<noteq> JUndefined \<Longrightarrow> w \<noteq> JNull \<Longrightarrow>
   \<not> (isDateSchema x (Zod i (DUnion options)) \<and> is_number w) \<Longrightarrow>
   fromConvexJS x w (Zod i (DUnion options)) =
     (case first_revalidating x options w of
        Some option \<Rightarrow> fromConvexJS x w option
      | None \<Rightarrow> w)"
  by (subst fromConvexJS.simps)
     (auto simp: find_decoded first_revalidating_def split: option.splits)






section \<open>Claims about the codec\<close>

text \<open>
  An environment for concrete inputs: nothing is registered, a schema is date-bearing when
  it is a date under the wrappers the codec looks through, and \<open>parse\<close> accepts
  what \<open>accepts\<close> does.
\<close>

definition plain_ext :: ext where
  "plain_ext = \<lparr>registry = [], isDateSchema = date_schema, parse_ok = accepts\<rparr>"

lemma plain_ext_simps [simp]:
  "registry plain_ext = []" "isDateSchema plain_ext = date_schema" "parse_ok plain_ext = accepts"
  by (simp_all add: plain_ext_def)

lemma findBaseCodec_Nil [simp]: "findBaseCodec [] s = None"
  by (simp add: findBaseCodec_def)

text \<open>
  C7. For a date schema, also under optional, nullable and default wrappers, with no
  registered codec on the way: encode turns a date into its time value in milliseconds,
  decode turns a number into the date with that (clipped) time value, and the date
  2024-01-01T00:00:00.000Z encodes to 1704067200000 and decodes back to it. Decode also
  builds a date from a number under any schema the registry module classifies as
  date-bearing.
\<close>

theorem date_timestamp:
  assumes "date_schema s" and "unregistered x s"
  shows "toConvexJS x (Some s) (JDate t) = JNum (getTime t)
       \<and> fromConvexJS x (JNum n) s = new_Date n
       \<and> toConvexJS x (Some s) (utc_date 2024 1 1 0 0 0 0) = JNum (Fin 1704067200000)
       \<and> fromConvexJS x (JNum (Fin 1704067200000)) s = utc_date 2024 1 1 0 0 0 0
       \<and> (\<forall>s'. findBaseCodec (registry x) s' = None \<and> unwrap s' = None \<and> isDateSchema x s'
              \<longrightarrow> fromConvexJS x (JNum n) s' = new_Date n)"
proof -
  have enc: "schemaToConvex x (JDate t') s = JNum (getTime t')" for t'
    using date_schema_codec[OF assms] by simp
  have dec: "fromConvexJS x (JNum n') s = new_Date n'" for n'
    using date_schema_codec[OF assms] by simp
  have "getTime (Some 1704067200000) = Fin 1704067200000"
    by (simp add: getTime_def)
  moreover have "new_Date (Fin 1704067200000) = JDate (Some 1704067200000)"
    by (simp add: new_Date_def TimeClip_def)
  ultimately show ?thesis
    by (simp add: toConvexJS_def enc dec utc_2024 fromConvexJS_isDateSchema)
qed

theorem date_timestamp_witness:
  "date_schema (Zod 2 (DOptional (Zod 0 DDate)))
   \<and> unregistered plain_ext (Zod 2 (DOptional (Zod 0 DDate)))
   \<and> toConvexJS plain_ext (Some (Zod 2 (DOptional (Zod 0 DDate)))) (JDate (Some 86400000))
       = JNum (Fin 86400000)
   \<and> fromConvexJS plain_ext (JNum (Fin (3 / 2))) (Zod 2 (DOptional (Zod 0 DDate)))
       = JDate (Some 1)
   \<and> toConvexJS plain_ext (Some (Zod 2 (DOptional (Zod 0 DDate)))) (utc_date 2024 1 1 0 0 0 0)
       = JNum (Fin 1704067200000)
   \<and> fromConvexJS plain_ext (JNum (Fin 1704067200000)) (Zod 2 (DOptional (Zod 0 DDate)))
       = utc_date 2024 1 1 0 0 0 0
   \<and> fromConvexJS plain_ext (JNum NaN) (Zod 0 DDate) = JDate None"
proof -
  have d: "date_schema (Zod 2 (DOptional (Zod 0 DDate)))" by simp
  have u: "unregistered plain_ext (Zod 2 (DOptional (Zod 0 DDate)))"
    by (simp add: unregistered.simps)
  have g: "getTime (Some 86400000) = Fin 86400000" by (simp add: getTime_def)
  have "\<lfloor>3 / 2 :: rat\<rfloor> = 1" by (rule floor_unique) simp_all
  then have n: "new_Date (Fin (3 / 2)) = JDate (Some 1)" "new_Date NaN = JDate None"
    by (simp_all add: new_Date_def TimeClip_def)
  from date_timestamp[OF d u, of "Some 86400000" "Fin (3 / 2)"]
    date_timestamp[OF d u, of None NaN]
  show ?thesis by (simp add: d u g n)
qed

lemma find_first_index:
  assumes "n < length xs" "P (xs ! n)" "\<forall>m<n. \<not> P (xs ! m)"
  shows "find P xs = Some (xs ! n)"
  using assms by (auto simp: find_Some_iff)

lemma find_none: "(\<forall>a\<in>set xs. \<not> P a) \<Longrightarrow> find P xs = None"
  by (simp add: find_None_iff)

text \<open>
  C4, as amended. For a union schema that no registered codec recognises and a value
  other than \<open>undefined\<close> and \<open>null\<close>: encode converts the value with the first
  option, in declaration order, whose \<open>parse\<close> accepts it; when no option accepts it,
  encode returns the schema-agnostic conversion \<open>basicToConvex\<close> of the value, which
  is the value itself when it holds no date and no \<open>undefined\<close> entry. Decode (unless
  the union schema itself is classified as date-bearing and the value is a number)
  returns the decoded value of the first option whose \<open>parse\<close> accepts its own decoded
  value, and the value unchanged when there is none.
\<close>

theorem union_first_match:
  assumes "findBaseCodec (registry x) (Zod i (DUnion options)) = None"
    and "v \<noteq> JUndefined" and "v \<noteq> JNull"
  shows "(n < length options \<and> parse_ok x (options ! n) v \<and>
          (\<forall>m<n. \<not> parse_ok x (options ! m) v) \<longrightarrow>
            toConvexJS x (Some (Zod i (DUnion options))) v = schemaToConvex x v (options ! n))
       \<and> ((\<forall>option\<in>set options. \<not> parse_ok x option v) \<longrightarrow>
            toConvexJS x (Some (Zod i (DUnion options))) v = basicToConvex v)
       \<and> ((\<forall>option\<in>set options. \<not> parse_ok x option v) \<and> wire_safe v \<longrightarrow>
            toConvexJS x (Some (Zod i (DUnion options))) v = v)
       \<and> (\<not> (isDateSchema x (Zod i (DUnion options)) \<and> is_number v) \<and>
          n < length options \<and> parse_ok x (options ! n) (fromConvexJS x v (options ! n)) \<and>
          (\<forall>m<n. \<not> parse_ok x (options ! m) (fromConvexJS x v (options ! m))) \<longrightarrow>
            fromConvexJS x v (Zod i (DUnion options)) = fromConvexJS x v (options ! n))
       \<and> (\<not> (isDateSchema x (Zod i (DUnion options)) \<and> is_number v) \<and>
          (\<forall>option\<in>set options. \<not> parse_ok x option (fromConvexJS x v option)) \<longrightarrow>
            fromConvexJS x v (Zod i (DUnion options)) = v)"
proof -
  let ?U = "Zod i (DUnion options)"
  have enc: "toConvexJS x (Some ?U) v =
      (case find (\<lambda>option. parse_ok x option v) options of
         Some option \<Rightarrow> schemaToConvex x v option
       | None \<Rightarrow> basicToConvex v)"
    using assms by (simp add: toConvexJS_def schemaToConvex_Union)
  have e1: "toConvexJS x (Some ?U) v = schemaToConvex x v (options ! n)"
    if "n < length options" "parse_ok x (options ! n) v" "\<forall>m<n. \<not> parse_ok x (options ! m) v"
    using find_first_index[of n options "\<lambda>option. parse_ok x option v", OF that]
    by (simp add: enc)
  have e2: "toConvexJS x (Some ?U) v = basicToConvex v"
    if "\<forall>option\<in>set options. \<not> parse_ok x option v"
    using find_none[of options "\<lambda>option. parse_ok x option v", OF that] by (simp add: enc)
  have dec: "fromConvexJS x v ?U =
      (case first_revalidating x options v of
         Some option \<Rightarrow> fromConvexJS x v option
       | None \<Rightarrow> v)"
    if "\<not> (isDateSchema x ?U \<and> is_number v)"
    using assms that by (simp add: fromConvexJS_Union)
  have d1: "fromConvexJS x v ?U = fromConvexJS x v (options ! n)"
    if "\<not> (isDateSchema x ?U \<and> is_number v)" "n < length options"
      "parse_ok x (options ! n) (fromConvexJS x v (options ! n))"
      "\<forall>m<n. \<not> parse_ok x (options ! m) (fromConvexJS x v (options ! m))"
    using find_first_index[of n options "\<lambda>option. parse_ok x option (fromConvexJS x v option)",
        OF that(2,3,4)]
    by (simp add: dec[OF that(1)] first_revalidating_def)
  have d2: "fromConvexJS x v ?U = v"
    if "\<not> (isDateSchema x ?U \<and> is_number v)"
      "\<forall>option\<in>set options. \<not> parse_ok x option (fromConvexJS x v option)"
    using find_none[of options "\<lambda>option. parse_ok x option (fromConvexJS x v option)", OF that(2)]
    by (simp add: dec[OF that(1)] first_revalidating_def)
  show ?thesis
    using e1 e2 d1 d2 by (auto simp: basicToConvex_wire_safe)
qed

theorem union_first_match_witness:
  "findBaseCodec (registry plain_ext)
     (Zod 4 (DUnion [Zod 0 DString, Zod 2 DDate, Zod 3 DAny])) = None
   \<and> toConvexJS plain_ext (Some (Zod 4 (DUnion [Zod 0 DString, Zod 2 DDate, Zod 3 DAny])))
        (JDate (Some 5)) = schemaToConvex plain_ext (JDate (Some 5)) (Zod 2 DDate)
   \<and> fromConvexJS plain_ext (JNum (Fin 5))
        (Zod 4 (DUnion [Zod 0 DString, Zod 2 DDate, Zod 3 DAny]))
        = fromConvexJS plain_ext (JNum (Fin 5)) (Zod 2 DDate)
   \<and> toConvexJS plain_ext (Some (Zod 4 (DUnion [Zod 0 DString, Zod 2 DDate])))
        (JBool True) = JBool True
   \<and> fromConvexJS plain_ext (JBool True) (Zod 4 (DUnion [Zod 0 DString, Zod 2 DDate]))
        = JBool True"
proof -
  let ?os = "[Zod 0 DString, Zod 2 DDate, Zod 3 DAny]"
  let ?ps = "[Zod 0 DString, Zod 2 DDate]"
  have r: "findBaseCodec (registry plain_ext) (Zod 4 (DUnion os)) = None" for os
    by simp
  have e: "1 < length ?os \<and> parse_ok plain_ext (?os ! 1) (JDate (Some 5)) \<and>
      (\<forall>m<1. \<not> parse_ok plain_ext (?os ! m) (JDate (Some 5)))"
    by simp
  have d: "\<not> (isDateSchema plain_ext (Zod 4 (DUnion ?os)) \<and> is_number (JNum (Fin 5))) \<and>
      1 < length ?os \<and>
      parse_ok plain_ext (?os ! 1) (fromConvexJS plain_ext (JNum (Fin 5)) (?os ! 1)) \<and>
      (\<forall>m<1. \<not> parse_ok plain_ext (?os ! m) (fromConvexJS plain_ext (JNum (Fin 5)) (?os ! m)))"
    by (simp add: fromConvexJS.simps new_Date_def TimeClip_def)
  have n: "(\<forall>option\<in>set ?ps. \<not> parse_ok plain_ext option (JBool True)) \<and> wire_safe (JBool True)"
    "\<not> (isDateSchema plain_ext (Zod 4 (DUnion ?ps)) \<and> is_number (JBool True)) \<and>
     (\<forall>option\<in>set ?ps. \<not> parse_ok plain_ext option (fromConvexJS plain_ext (JBool True) option))"
    by (simp_all add: fromConvexJS.simps)
  from union_first_match[OF r, where v = "JDate (Some 5)" and n = 1 and options = ?os] e
  have 1: "toConvexJS plain_ext (Some (Zod 4 (DUnion ?os))) (JDate (Some 5))
      = schemaToConvex plain_ext (JDate (Some 5)) (Zod 2 DDate)"
    by simp
  from union_first_match[OF r, where v = "JNum (Fin 5)" and n = 1 and options = ?os] d
  have 2: "fromConvexJS plain_ext (JNum (Fin 5)) (Zod 4 (DUnion ?os))
      = fromConvexJS plain_ext (JNum (Fin 5)) (Zod 2 DDate)"
    by simp
  from union_first_match[OF r, where v = "JBool True" and options = ?ps] n
  have 3: "toConvexJS plain_ext (Some (Zod 4 (DUnion ?ps))) (JBool True) = JBool True"
    "fromConvexJS plain_ext (JBool True) (Zod 4 (DUnion ?ps)) = JBool True"
    by blast+
  from 1 2 3 show ?thesis by simp
qed

text \<open>
  C4 as stated fails: under the union of string and number no option accepts a date, yet
  encode does not pass the date through unconverted; it returns its time value.
\<close>

theorem union_passthrough_counterexample:
  "\<not> parse_ok plain_ext (Zod 0 DString) (JDate (Some 5))
   \<and> \<not> parse_ok plain_ext (Zod 2 DNumber) (JDate (Some 5))
   \<and> toConvexJS plain_ext (Some (Zod 3 (DUnion [Zod 0 DString, Zod 2 DNumber])))
        (JDate (Some 5)) = JNum (Fin 5)
   \<and> JNum (Fin 5) \<noteq> JDate (Some 5)"
  by (simp add: toConvexJS_def schemaToConvex.simps getTime_def)

lemma mem_map_map_filter:
  "a \<in> set xs \<Longrightarrow> P a \<Longrightarrow> g (h a) \<in> set (map g (map h (filter P xs)))"
  by (induction xs) auto

text \<open>
  C8, as amended. For an object schema that no registered codec recognises and an object
  value: encode drops the entries holding \<open>undefined\<close>, converts an entry whose key
  the shape declares with the field's schema and any other entry with
  \<open>basicToConvex\<close>; decode converts a declared entry with the field's schema and
  returns any other entry unchanged; neither rejects an entry. So after encode and
  decode a declared entry holds its round-tripped value, an undeclared entry holds its
  \<open>basicToConvex\<close> conversion, which is the entry's own value when that holds no date
  and no \<open>undefined\<close> entry. On the schema-agnostic path \<open>{a: 1, b: undefined}\<close>
  becomes \<open>{a: 1}\<close>.
\<close>

theorem object_fieldwise:
  assumes "findBaseCodec (registry x) (Zod i (DObject shape)) = None"
  shows "toConvexJS x (Some (Zod i (DObject shape))) (JObj es) =
           JObj (map (\<lambda>(k, f). (k, case map_of shape k of
                                     Some s \<Rightarrow> schemaToConvex x f s
                                   | None \<Rightarrow> basicToConvex f))
                  (filter (\<lambda>(k, f). f \<noteq> JUndefined) es))
       \<and> fromConvexJS x (JObj es) (Zod i (DObject shape)) =
           JObj (map (\<lambda>(k, f). (k, case map_of shape k of
                                     Some s \<Rightarrow> fromConvexJS x f s
                                   | None \<Rightarrow> f)) es)
       \<and> ((k, f) \<in> set es \<and> f \<noteq> JUndefined \<and> map_of shape k = Some s \<longrightarrow>
            (k, fromConvexJS x (schemaToConvex x f s) s)
              \<in> set (entries (fromConvexJS x (toConvexJS x (Some (Zod i (DObject shape))) (JObj es))
                                (Zod i (DObject shape)))))
       \<and> ((k, f) \<in> set es \<and> f \<noteq> JUndefined \<and> map_of shape k = None \<longrightarrow>
            (k, basicToConvex f)
              \<in> set (entries (fromConvexJS x (toConvexJS x (Some (Zod i (DObject shape))) (JObj es))
                                (Zod i (DObject shape)))))
       \<and> ((k, f) \<in> set es \<and> f \<noteq> JUndefined \<and> map_of shape k = None \<and> wire_safe f \<longrightarrow>
            (k, f)
              \<in> set (entries (fromConvexJS x (toConvexJS x (Some (Zod i (DObject shape))) (JObj es))
                                (Zod i (DObject shape)))))
       \<and> toConvexJS1 (JObj [(''a'', JNum (Fin 1)), (''b'', JUndefined)])
            = JObj [(''a'', JNum (Fin 1))]"
proof -
  let ?E = "\<lambda>(k, f). (k, case map_of shape k of
                            Some s \<Rightarrow> schemaToConvex x f s
                          | None \<Rightarrow> basicToConvex f)"
  let ?D = "\<lambda>(k, f). (k, case map_of shape k of
                            Some s \<Rightarrow> fromConvexJS x f s
                          | None \<Rightarrow> f)"
  let ?O = "Zod i (DObject shape)"
  have enc: "toConvexJS x (Some ?O) (JObj es') = JObj (map ?E (filter (\<lambda>(k, f). f \<noteq> JUndefined) es'))"
    for es'
    using assms by (simp add: toConvexJS_def schemaToConvex_Object)
  have dec: "fromConvexJS x (JObj es') ?O = JObj (map ?D es')" for es'
    using assms by (simp add: fromConvexJS_Object)
  have rt: "entries (fromConvexJS x (toConvexJS x (Some ?O) (JObj es)) ?O) =
      map ?D (map ?E (filter (\<lambda>(k, f). f \<noteq> JUndefined) es))"
    by (simp add: enc dec)
  have mem: "?D (?E (k, f)) \<in> set (map ?D (map ?E (filter (\<lambda>(k, f). f \<noteq> JUndefined) es)))"
    if "(k, f) \<in> set es" "f \<noteq> JUndefined"
    using that by (intro mem_map_map_filter) simp_all
  have k1: "?D (?E (k, f)) = (k, fromConvexJS x (schemaToConvex x f s) s)"
    if "map_of shape k = Some s"
    using that by simp
  have k2: "?D (?E (k, f)) = (k, basicToConvex f)" if "map_of shape k = None"
    using that by simp
  have "toConvexJS1 (JObj [(''a'', JNum (Fin 1)), (''b'', JUndefined)])
            = JObj [(''a'', JNum (Fin 1))]"
    by (simp add: toConvexJS1_def)
  with mem k1 k2 show ?thesis
    unfolding rt enc dec by (auto simp: basicToConvex_wire_safe simp del: map_map)
qed


text \<open>A schema and a value for concrete evaluation.\<close>

definition event_schema :: zschema where
  "event_schema =
     Zod 9 (DObject
       [(''when'', Zod 0 DDate),
        (''tags'', Zod 3 (DArray (Zod 2 DString))),
        (''note'', Zod 7 (DOptional (Zod 6 (DUnion [Zod 4 DNumber, Zod 5 DString])))),
        (''seen'', Zod 8 (DNullable (Zod 0 DDate)))])"

definition event_value :: jsval where
  "event_value =
     JObj [(''when'', utc_date 2024 1 1 0 0 0 0),
           (''tags'', JArr [JStr ''a'', JStr ''b'']),
           (''note'', JStr ''x''),
           (''seen'', JNull),
           (''extra'', JArr [JNum (Fin 7)])]"

theorem object_fieldwise_witness:
  "findBaseCodec (registry plain_ext) event_schema = None
   \<and> toConvexJS plain_ext (Some event_schema) event_value =
       JObj [(''when'', JNum (Fin 1704067200000)),
             (''tags'', JArr [JStr ''a'', JStr ''b'']),
             (''note'', JStr ''x''),
             (''seen'', JNull),
             (''extra'', JArr [JNum (Fin 7)])]
   \<and> (''when'', utc_date 2024 1 1 0 0 0 0)
       \<in> set (entries (fromConvexJS plain_ext (toConvexJS plain_ext (Some event_schema) event_value)
                         event_schema))
   \<and> (''extra'', JArr [JNum (Fin 7)])
       \<in> set (entries (fromConvexJS plain_ext (toConvexJS plain_ext (Some event_schema) event_value)
                         event_schema))"
proof -
  let ?shape = "[(''when'', Zod 0 DDate),
        (''tags'', Zod 3 (DArray (Zod 2 DString))),
        (''note'', Zod 7 (DOptional (Zod 6 (DUnion [Zod 4 DNumber, Zod 5 DString])))),
        (''seen'', Zod 8 (DNullable (Zod 0 DDate)))]"
  let ?es = "[(''when'', utc_date 2024 1 1 0 0 0 0),
           (''tags'', JArr [JStr ''a'', JStr ''b'']),
           (''note'', JStr ''x''),
           (''seen'', JNull),
           (''extra'', JArr [JNum (Fin 7)])]"
  have r: "findBaseCodec (registry plain_ext) (Zod 9 (DObject ?shape)) = None" by simp
  from object_fieldwise[OF r, where es = ?es and k = "''when''"
      and f = "utc_date 2024 1 1 0 0 0 0" and s = "Zod 0 DDate"]
    object_fieldwise[OF r, where es = ?es and k = "''extra''" and f = "JArr [JNum (Fin 7)]"]
  show ?thesis
    unfolding event_schema_def event_value_def
    by (simp add: utc_2024 schemaToConvex.simps fromConvexJS.simps getTime_def new_Date_def
          TimeClip_def)
qed

text \<open>
  C8 as stated fails: an undeclared field holding a date breaks the round trip. Encode
  turns the date into a number, and decode, which has no schema for the field, leaves the
  number.
\<close>

theorem extra_field_roundtrip_counterexample:
  "accepts (Zod 0 (DObject [])) (JObj [(''extra'', JDate (Some 0))])
   \<and> fromConvexJS plain_ext
        (toConvexJS plain_ext (Some (Zod 0 (DObject []))) (JObj [(''extra'', JDate (Some 0))]))
        (Zod 0 (DObject []))
       = JObj [(''extra'', JNum (Fin 0))]
   \<and> JObj [(''extra'', JNum (Fin 0))] \<noteq> JObj [(''extra'', JDate (Some 0))]"
  by (simp add: toConvexJS_def schemaToConvex.simps fromConvexJS.simps getTime_def)




section \<open>The validator mapper\<close>

text \<open>
  The state of one traversal: the \<open>visited\<close> set of node identities, a log of the
  getter calls made so far, each with the identity of the node the call of
  \<open>zodToConvexInternal\<close> began at and the identity of the lazy node whose getter ran, and
  the first identity not yet given to a schema object. The log and the counter are not in
  the source; they record the effects of calling a getter: that it was called, and that
  the objects it builds are new.
\<close>

record mstate =
  visited :: "nat set"
  getter_calls :: "(nat \<times> nat) list"
  next_id :: nat

text \<open>
  A conversion step takes the state and gives a value or an error, with the new state
  (the visited set is mutated in place, so it keeps what was added before an error); it
  gives nothing when the recursion depth allowed (the fuel) is used up.
\<close>

type_synonym 'a conv = "mstate \<Rightarrow> ('a outcome \<times> mstate) option"

definition then_conv :: "('a \<Rightarrow> 'b outcome) \<Rightarrow> 'a conv \<Rightarrow> 'b conv" where
  "then_conv f m st =
     (case m st of
        None \<Rightarrow> None
      | Some (Returned a, st') \<Rightarrow> Some (f a, st')
      | Some (Raised e, st') \<Rightarrow> Some (Raised e, st'))"

definition map_conv :: "('a \<Rightarrow> 'b) \<Rightarrow> 'a conv \<Rightarrow> 'b conv" where
  "map_conv f m = then_conv (\<lambda>a. Returned (f a)) m"

text \<open>\<open>try { ... } catch { fallback }\<close>.\<close>

definition catch_conv :: "'a \<Rightarrow> 'a conv \<Rightarrow> 'a conv" where
  "catch_conv fallback m st =
     (case m st of
        None \<Rightarrow> None
      | Some (Returned a, st') \<Rightarrow> Some (Returned a, st')
      | Some (Raised e, st') \<Rightarrow> Some (Returned fallback, st'))"

text \<open>
  Converting the schemas of a list in order, each from the state the last one left; an
  error ends the loop.
\<close>

fun convert_each :: "(zschema \<Rightarrow> validator conv) \<Rightarrow> zschema list \<Rightarrow> validator list conv" where
  "convert_each rec [] st = Some (Returned [], st)"
| "convert_each rec (s # ss) st =
     (case rec s st of
        None \<Rightarrow> None
      | Some (Raised e, st') \<Rightarrow> Some (Raised e, st')
      | Some (Returned v, st') \<Rightarrow> map_conv (\<lambda>vs. v # vs) (convert_each rec ss) st')"

text \<open>\<open>finalValidator._zodDefault = defaultValue\<close>, when there is a default.\<close>

definition set_zodDefault :: "jsval option \<Rightarrow> validator \<Rightarrow> validator" where
  "set_zodDefault d e =
     (case d of None \<Rightarrow> e | Some dv \<Rightarrow> Validator (vkind e) (isOptional e) (Some dv))"

text \<open>Class tests and the accessors \<open>def.innerType\<close> (\<open>unwrap()\<close>) and \<open>def.defaultValue\<close>.\<close>

fun is_ZodOptional :: "zschema \<Rightarrow> bool" where
  "is_ZodOptional (Zod i (DOptional inner)) = True"
| "is_ZodOptional schema = False"

fun is_ZodDefault :: "zschema \<Rightarrow> bool" where
  "is_ZodDefault (Zod i (DDefault inner d)) = True"
| "is_ZodDefault schema = False"

fun innerType :: "zschema \<Rightarrow> zschema" where
  "innerType (Zod i (DOptional inner)) = inner"
| "innerType (Zod i (DNullable inner)) = inner"
| "innerType (Zod i (DDefault inner d)) = inner"
| "innerType (Zod i (DPrefault inner d)) = inner"
| "innerType schema = schema"

fun defaultValue_of :: "zschema \<Rightarrow> jsval option" where
  "defaultValue_of (Zod i (DDefault inner d)) = Some d"
| "defaultValue_of (Zod i (DPrefault inner d)) = Some d"
| "defaultValue_of schema = None"

text \<open>
  Lines 37 to 63 of \<open>zodToConvexInternal\<close>: a default wrapper is taken off, then an
  optional wrapper and a default wrapper under it. The result is the \<open>actualValidator\<close>,
  \<open>isOptional\<close>, and the default value when \<open>hasDefault\<close>.
\<close>

definition strip_wrappers :: "zschema \<Rightarrow> zschema \<times> bool \<times> jsval option" where
  "strip_wrappers zodValidator =
     (let (actual1, default1) =
            (if is_ZodDefault zodValidator
             then (innerType zodValidator, defaultValue_of zodValidator)
             else (zodValidator, None))
      in if is_ZodOptional actual1
         then (let actual2 = innerType actual1
               in if is_ZodDefault actual2
                  then (innerType actual2, True, defaultValue_of actual2)
                  else (actual2, True, default1))
         else (actual1, False, default1))"

text \<open>
  Modelled from the spec: \<open>convertUnionType\<close>, \<open>convertDiscriminatedUnionType\<close>,
  \<open>convertEnumType\<close> and \<open>convertNullableType\<close> of the handlers module are not among
  the sources. A union maps to the union of its mapped branches, a discriminated union by
  the same rule; an enum of one value maps to a literal and any other to the union of its
  literals; a nullable maps to the union of the mapped inner schema and null, and when the
  inner schema is optional it is the optional's inner schema that is mapped and the result
  is reported optional.
\<close>

definition convertUnionType ::
  "zschema list \<Rightarrow> mstate \<Rightarrow> (zschema \<Rightarrow> validator conv) \<Rightarrow> (validator outcome \<times> mstate) option" where
  "convertUnionType options st rec = map_conv v_union (convert_each rec options) st"

definition convertDiscriminatedUnionType ::
  "zschema list \<Rightarrow> mstate \<Rightarrow> (zschema \<Rightarrow> validator conv) \<Rightarrow> (validator outcome \<times> mstate) option" where
  "convertDiscriminatedUnionType options st rec = map_conv v_union (convert_each rec options) st"

definition convertEnumType :: "string list \<Rightarrow> validator" where
  "convertEnumType vals =
     (case vals of
        [single] \<Rightarrow> v_literal (JStr single)
      | _ \<Rightarrow> v_union (map (\<lambda>s. v_literal (JStr s)) vals))"

definition convertNullableType ::
  "zschema \<Rightarrow> mstate \<Rightarrow> (zschema \<Rightarrow> validator conv) \<Rightarrow>
   ((validator \<times> bool) outcome \<times> mstate) option" where
  "convertNullableType actualValidator st rec =
     (let innerSchema = innerType actualValidator
      in if is_ZodOptional innerSchema
         then map_conv (\<lambda>e. (v_union [e, v_null], True)) (rec (innerType innerSchema)) st
         else map_conv (\<lambda>e. (v_union [e, v_null], False)) (rec innerSchema) st)"

text \<open>
  \<open>convertRecordType\<close>. The value type is \<open>_def.valueType\<close>, or \<open>_def.keyType\<close> when
  the record was built from one argument. A schema that is no record has neither, and
  maps to a record of anything. Each result is built by \<open>v.record\<close>, which throws when
  it is handed an optional value validator.
\<close>

definition isZodOptional :: "zschema \<Rightarrow> bool" where
  "isZodOptional valueType =
     (is_ZodOptional valueType \<or>
      ((case zdef valueType of DDefault i d \<Rightarrow> True | DPrefault i d \<Rightarrow> True | _ \<Rightarrow> False) \<and>
       is_ZodOptional (innerType valueType)))"

definition convertRecordType ::
  "zschema \<Rightarrow> mstate \<Rightarrow> (zschema \<Rightarrow> validator conv) \<Rightarrow> (validator outcome \<times> mstate) option" where
  "convertRecordType actualValidator st rec =
     (case (case zdef actualValidator of
              DRecord keyType valueType \<Rightarrow>
                (case valueType of Some vt \<Rightarrow> Some vt | None \<Rightarrow> Some keyType)
            | _ \<Rightarrow> None) of
        None \<Rightarrow> Some (v_record v_string v_any, st)
      | Some valueType \<Rightarrow>
          if isZodOptional valueType
          then
            (let (inner, recordDefault) =
                   (if defaultValue_of valueType \<noteq> None
                    then (let innerFromDefault = innerType valueType
                          in if is_ZodOptional innerFromDefault
                             then (innerType innerFromDefault, defaultValue_of valueType)
                             else (innerFromDefault, defaultValue_of valueType))
                    else if is_ZodOptional valueType then (innerType valueType, None)
                    else (valueType, None))
             in then_conv
                  (\<lambda>innerConvex.
                     v_record v_string (set_zodDefault recordDefault (v_union [innerConvex, v_null])))
                  (rec inner) st)
          else then_conv (\<lambda>e. v_record v_string e) (rec valueType) st)"

text \<open>\<open>metadata?.tableName || 'unknown'\<close>.\<close>

definition tableName_or_unknown :: "string option \<Rightarrow> string" where
  "tableName_or_unknown t =
     (case t of None \<Rightarrow> ''unknown'' | Some name \<Rightarrow> if name = [] then ''unknown'' else name)"

text \<open>
  The \<open>value\<close> property of a literal schema: the one value, \<open>undefined\<close> when there is
  none, and an error when there are more.
\<close>

definition literal_value :: "jsval list \<Rightarrow> jsval outcome" where
  "literal_value vals =
     (case vals of
        [] \<Rightarrow> Returned JUndefined
      | [single] \<Rightarrow> Returned single
      | _ \<Rightarrow> Raised ''This schema contains multiple valid literal values. Use `.values` instead.'')"

text \<open>
  A schema with other identities: \<open>rename f\<close> gives every node the identity \<open>f\<close> makes
  of its own.
\<close>

primrec rename :: "(nat \<Rightarrow> nat) \<Rightarrow> zschema \<Rightarrow> zschema"
  and rename_def :: "(nat \<Rightarrow> nat) \<Rightarrow> zdef \<Rightarrow> zdef" where
  "rename f (Zod i d) = Zod (f i) (rename_def f d)"
| "rename_def f DString = DString"
| "rename_def f DNumber = DNumber"
| "rename_def f DBigInt = DBigInt"
| "rename_def f DBoolean = DBoolean"
| "rename_def f DDate = DDate"
| "rename_def f DNull = DNull"
| "rename_def f DNan = DNan"
| "rename_def f (DArray element) = DArray (rename f element)"
| "rename_def f (DObject shape) = DObject (map (map_prod id (rename f)) shape)"
| "rename_def f (DUnion options) = DUnion (map (rename f) options)"
| "rename_def f (DDiscriminatedUnion k options) = DDiscriminatedUnion k (map (rename f) options)"
| "rename_def f (DLiteral vals) = DLiteral vals"
| "rename_def f (DEnum vals) = DEnum vals"
| "rename_def f (DRecord keyType valueType) =
     DRecord (rename f keyType) (map_option (rename f) valueType)"
| "rename_def f (DTransform brand) = DTransform (map_option (rename f) brand)"
| "rename_def f (DPipe brand) = DPipe (map_option (rename f) brand)"
| "rename_def f (DNullable inner) = DNullable (rename f inner)"
| "rename_def f (DTuple items) = DTuple (map (rename f) items)"
| "rename_def f (DLazy getter) = DLazy getter"
| "rename_def f DAny = DAny"
| "rename_def f DUnknown = DUnknown"
| "rename_def f DUndefined = DUndefined"
| "rename_def f DVoid = DVoid"
| "rename_def f DNever = DNever"
| "rename_def f (DIntersection left right) = DIntersection (rename f left) (rename f right)"
| "rename_def f (DOptional inner) = DOptional (rename f inner)"
| "rename_def f (DDefault inner d) = DDefault (rename f inner) d"
| "rename_def f (DPrefault inner d) = DPrefault (rename f inner) d"
| "rename_def f (DZid t) = DZid t"
| "rename_def f (DOther t) = DOther t"

text \<open>
  Calling a getter. It throws, or returns the value of a binding (\<open>None\<close>: something
  that is no schema), the same object at every call; or it builds its schema anew at
  every call: the objects built are the nodes of the bound schema whose identity is in
  \<open>locals\<close>, and each call gives them identities that no object has yet. The other
  nodes of the bound schema are objects that exist already. The result is the schema
  returned, if any, and the state.
\<close>

fun position :: "nat list \<Rightarrow> nat \<Rightarrow> nat option" where
  "position [] i = None"
| "position (l # ls) i = (if l = i then Some 0 else map_option Suc (position ls i))"

definition fresh_id :: "nat \<Rightarrow> nat list \<Rightarrow> nat \<Rightarrow> nat" where
  "fresh_id n locals i = (case position locals i of None \<Rightarrow> i | Some j \<Rightarrow> n + j)"

definition call_getter ::
  "(nat \<times> zschema) list \<Rightarrow> getter \<Rightarrow> mstate \<Rightarrow> zschema option \<times> mstate" where
  "call_getter bindings getter st =
     (case getter of
        GetterThrows \<Rightarrow> (None, st)
      | GetterReturns name \<Rightarrow>
          ((case name of None \<Rightarrow> None | Some b \<Rightarrow> map_of bindings b), st)
      | GetterBuilds b locals \<Rightarrow>
          (case map_of bindings b of
             None \<Rightarrow> (None, st)
           | Some template \<Rightarrow>
               (Some (rename (fresh_id (next_id st) locals) template),
                st\<lparr>next_id := next_id st + length locals\<rparr>)))"

text \<open>The getter of the lazy node \<open>lazy\<close> is called in the call that began at \<open>entry\<close>.\<close>

definition log_getter :: "nat \<Rightarrow> nat \<Rightarrow> mstate \<Rightarrow> mstate" where
  "log_getter entry lazy st = st\<lparr>getter_calls := getter_calls st @ [(entry, lazy)]\<rparr>"

text \<open>
  The switch on \<open>def.type\<close> (lines 67 to 290), with \<open>rec\<close> for the recursive call. It
  returns the \<open>convexValidator\<close> and whether the nullable case set \<open>isOptional\<close>. In
  the lazy case the getter and the recursive call stand in a \<open>try\<close>: a getter that
  throws, returns no schema or names an unbound variable gives \<open>v.any()\<close>, and so does
  an error thrown while the resolved schema is mapped. No other case catches an error.
  The optional, default and prefault wrappers that \<open>strip_wrappers\<close> left in place have
  no case and fall to the default, as every unrecognised type does.
\<close>

definition convert_def ::
  "(zschema \<Rightarrow> validator conv) \<Rightarrow> base_codec list \<Rightarrow> (nat \<times> zschema) list \<Rightarrow> nat \<Rightarrow>
   zschema \<Rightarrow> (validator \<times> bool) conv" where
  "convert_def rec reg bindings entry actualValidator st =
     (case zdef actualValidator of
        DZid t \<Rightarrow> Some (Returned (v_id (tableName_or_unknown t), False), st)
      | DString \<Rightarrow> Some (Returned (v_string, False), st)
      | DNumber \<Rightarrow> Some (Returned (v_float64, False), st)
      | DBigInt \<Rightarrow> Some (Returned (v_int64, False), st)
      | DBoolean \<Rightarrow> Some (Returned (v_boolean, False), st)
      | DDate \<Rightarrow> Some (Returned (v_float64, False), st)
      | DNull \<Rightarrow> Some (Returned (v_null, False), st)
      | DNan \<Rightarrow> Some (Returned (v_float64, False), st)
      | DArray element \<Rightarrow> map_conv (\<lambda>e. (v_array e, False)) (rec element) st
      | DObject shape \<Rightarrow>
          map_conv (\<lambda>es. (v_object (zip (map fst shape) es), False))
            (convert_each rec (map snd shape)) st
      | DUnion options \<Rightarrow>
          map_conv (\<lambda>e. (e, False)) (\<lambda>st. convertUnionType options st rec) st
      | DDiscriminatedUnion k options \<Rightarrow>
          map_conv (\<lambda>e. (e, False)) (\<lambda>st. convertDiscriminatedUnionType options st rec) st
      | DLiteral vals \<Rightarrow>
          (case literal_value vals of
             Raised e \<Rightarrow> Some (Raised e, st)
           | Returned literalValue \<Rightarrow>
               Some (Returned (if literalValue \<noteq> JUndefined \<and> literalValue \<noteq> JNull
                               then v_literal literalValue else v_any, False), st))
      | DEnum vals \<Rightarrow> Some (Returned (convertEnumType vals, False), st)
      | DRecord keyType valueType \<Rightarrow>
          map_conv (\<lambda>e. (e, False)) (\<lambda>st. convertRecordType actualValidator st rec) st
      | DTransform brand \<Rightarrow>
          (case findBaseCodec reg actualValidator of
             Some codec \<Rightarrow> Some (Returned (toValidator codec actualValidator, False), st)
           | None \<Rightarrow>
               (case brand of
                  Some originalSchema \<Rightarrow> map_conv (\<lambda>e. (e, False)) (rec originalSchema) st
                | None \<Rightarrow> Some (Returned (v_any, False), st)))
      | DPipe brand \<Rightarrow>
          (case findBaseCodec reg actualValidator of
             Some codec \<Rightarrow> Some (Returned (toValidator codec actualValidator, False), st)
           | None \<Rightarrow>
               (case brand of
                  Some originalSchema \<Rightarrow> map_conv (\<lambda>e. (e, False)) (rec originalSchema) st
                | None \<Rightarrow> Some (Returned (v_any, False), st)))
      | DNullable inner \<Rightarrow> convertNullableType actualValidator st rec
      | DTuple items \<Rightarrow>
          map_conv
            (\<lambda>es. (v_object (zip (map (\<lambda>index. ''_'' @ string_of_nat index) [0..<length items]) es),
                    False))
            (convert_each rec items) st
      | DLazy getter \<Rightarrow>
          (case call_getter bindings getter (log_getter entry (zid actualValidator) st) of
             (None, st1) \<Rightarrow> Some (Returned (v_any, False), st1)
           | (Some resolvedSchema, st1) \<Rightarrow>
               catch_conv (v_any, False) (map_conv (\<lambda>e. (e, False)) (rec resolvedSchema)) st1)
      | _ \<Rightarrow> Some (Returned (v_any, False), st))"

text \<open>
  \<open>zodToConvexInternal\<close>. The first argument bounds the depth of the recursion, and the
  result is \<open>None\<close> when the depth is not enough; \<open>enough_fuel\<close> below gives a bound
  that is, and \<open>fuel_mono\<close> shows that the result does not depend on the bound. \<open>None\<close>
  as schema is the absent (\<open>undefined\<close>) validator.
\<close>

fun zodToConvexInternal ::
  "nat \<Rightarrow> base_codec list \<Rightarrow> (nat \<times> zschema) list \<Rightarrow> zschema option \<Rightarrow> validator conv" where
  "zodToConvexInternal 0 reg bindings zodValidator st = None"
| "zodToConvexInternal (Suc fuel) reg bindings None st = Some (Returned v_any, st)"
| "zodToConvexInternal (Suc fuel) reg bindings (Some zodValidator) st =
     (if zid zodValidator \<in> visited st then Some (Returned v_any, st)
      else
        (case strip_wrappers zodValidator of
           (actualValidator, optional, defaultValue) \<Rightarrow>
             map_conv
               (\<lambda>(convexValidator, nullableOptional).
                  set_zodDefault defaultValue
                    (if optional \<or> nullableOptional then v_optional convexValidator
                     else convexValidator))
               (convert_def (\<lambda>s. zodToConvexInternal fuel reg bindings (Some s)) reg bindings
                  (zid zodValidator) actualValidator)
               (st\<lparr>visited := insert (zid zodValidator) (visited st)\<rparr>)))"

subsection \<open>The nodes of a schema\<close>

text \<open>The nodes directly under a node.\<close>

fun children :: "zschema \<Rightarrow> zschema list" where
  "children (Zod i (DArray element)) = [element]"
| "children (Zod i (DObject shape)) = map snd shape"
| "children (Zod i (DUnion options)) = options"
| "children (Zod i (DDiscriminatedUnion k options)) = options"
| "children (Zod i (DRecord keyType valueType)) =
     keyType # (case valueType of None \<Rightarrow> [] | Some s \<Rightarrow> [s])"
| "children (Zod i (DTransform brand)) = (case brand of None \<Rightarrow> [] | Some s \<Rightarrow> [s])"
| "children (Zod i (DPipe brand)) = (case brand of None \<Rightarrow> [] | Some s \<Rightarrow> [s])"
| "children (Zod i (DNullable inner)) = [inner]"
| "children (Zod i (DTuple items)) = items"
| "children (Zod i (DIntersection a b)) = [a, b]"
| "children (Zod i (DOptional inner)) = [inner]"
| "children (Zod i (DDefault inner d)) = [inner]"
| "children (Zod i (DPrefault inner d)) = [inner]"
| "children schema = []"

lemma children_size: "c \<in> set (children s) \<Longrightarrow> size c < size s"
  by (induction s rule: children.induct)
     (auto dest: size_mem size_mem_snd split: option.splits)

text \<open>All nodes of a schema, and all nodes of a schema and the bound schemas.\<close>

function nodes :: "zschema \<Rightarrow> zschema list" where
  "nodes s = s # concat (map nodes (children s))"
  by pat_completeness auto
termination
  by (relation "measure size") (auto dest: children_size)

declare nodes.simps [simp del]

definition all_nodes :: "(nat \<times> zschema) list \<Rightarrow> zschema option \<Rightarrow> zschema list" where
  "all_nodes bindings zod =
     (case zod of None \<Rightarrow> [] | Some s \<Rightarrow> nodes s) @ concat (map (\<lambda>(b, t). nodes t) bindings)"

text \<open>
  A depth that is enough for every traversal that ends (see \<open>enough_fuel\<close>): with \<open>n\<close>
  nodes in all, a traversal goes at most \<open>n\<close> times to a node that was there before
  it began, and in between through fewer than \<open>n\<close> nodes that a getter built.
\<close>

definition fuel_for :: "(nat \<times> zschema) list \<Rightarrow> zschema option \<Rightarrow> nat" where
  "fuel_for bindings zod =
     (let n = length (all_nodes bindings zod) in Suc ((n + 1) * (n + 2)))"

text \<open>
  \<open>zodToConvex\<close> on a schema, and \<open>zodToConvexFields\<close> on a record of schemas: each
  call of \<open>zodToConvexInternal\<close> starts from a fresh visited set. New objects are
  numbered from the first number that no node has.
\<close>

definition initial :: "(nat \<times> zschema) list \<Rightarrow> zschema option \<Rightarrow> mstate" where
  "initial bindings zod =
     \<lparr>visited = {}, getter_calls = [],
      next_id = Suc (fold max (map zid (all_nodes bindings zod)) 0)\<rparr>"

definition zodToConvex ::
  "base_codec list \<Rightarrow> (nat \<times> zschema) list \<Rightarrow> zschema option \<Rightarrow> validator outcome option" where
  "zodToConvex reg bindings zod =
     map_option fst
       (zodToConvexInternal (fuel_for bindings zod) reg bindings zod (initial bindings zod))"

text \<open>
  The loop of \<open>zodToConvexFields\<close>: the fields in order, the first error ending it. The
  result is \<open>None\<close> when the mapping of a field does not end.
\<close>

fun zodToConvexFields ::
  "base_codec list \<Rightarrow> (nat \<times> zschema) list \<Rightarrow> (string \<times> zschema option) list \<Rightarrow>
   (string \<times> validator) list outcome option" where
  "zodToConvexFields reg bindings [] = Some (Returned [])"
| "zodToConvexFields reg bindings ((key, value) # rest) =
     (case zodToConvex reg bindings value of
        None \<Rightarrow> None
      | Some (Raised e) \<Rightarrow> Some (Raised e)
      | Some (Returned v) \<Rightarrow>
          (case zodToConvexFields reg bindings rest of
             None \<Rightarrow> None
           | Some (Raised e) \<Rightarrow> Some (Raised e)
           | Some (Returned vs) \<Rightarrow> Some (Returned ((key, v) # vs))))"

subsection \<open>How a traversal changes the state\<close>

text \<open>
  \<open>extends st st'\<close>: the visited set only grows, the log only grows at its end, and every
  getter call added belongs to a different node, one that was added to the visited set.
\<close>

definition new_calls :: "mstate \<Rightarrow> mstate \<Rightarrow> (nat \<times> nat) list" where
  "new_calls st st' = drop (length (getter_calls st)) (getter_calls st')"

definition extends :: "mstate \<Rightarrow> mstate \<Rightarrow> bool" where
  "extends st st' \<longleftrightarrow>
     visited st \<subseteq> visited st' \<and>
     getter_calls st' = getter_calls st @ new_calls st st' \<and>
     distinct (map fst (new_calls st st')) \<and>
     fst ` set (new_calls st st') \<subseteq> visited st' - visited st"

lemma extendsI:
  assumes "visited st \<subseteq> visited st'" "getter_calls st' = getter_calls st @ new"
    "distinct (map fst new)" "fst ` set new \<subseteq> visited st' - visited st"
  shows "extends st st'"
  using assms by (simp add: extends_def new_calls_def)

lemma extends_refl [simp]: "extends st st"
  by (simp add: extends_def new_calls_def)




lemma extends_next_id: "extends st (st\<lparr>next_id := k\<rparr>)"
  by (rule extendsI[where new = "[]"]) auto


text \<open>
  The errors the mapper can throw: that of \<open>v.record\<close> on an optional value validator,
  and that of the \<open>value\<close> property of a literal with several values.
\<close>

definition mapper_errors :: "string set" where
  "mapper_errors =
     {''Record validator cannot have optional values'',
      ''This schema contains multiple valid literal values. Use `.values` instead.''}"

definition expected :: "'a outcome \<Rightarrow> bool" where
  "expected r \<longleftrightarrow> (case r of Returned a \<Rightarrow> True | Raised e \<Rightarrow> e \<in> mapper_errors)"

lemma expected_Returned [simp]: "expected (Returned a)"
  by (simp add: expected_def)

lemma expected_Raised [simp]: "expected (Raised e) \<longleftrightarrow> e \<in> mapper_errors"
  by (simp add: expected_def)



text \<open>
  \<open>ends m st0 st\<close>: from \<open>st\<close> the step \<open>m\<close> gives a result, a value or one of the two
  errors, in a state that extends \<open>st0\<close>.
\<close>

definition ends :: "'a conv \<Rightarrow> mstate \<Rightarrow> mstate \<Rightarrow> bool" where
  "ends m st0 st \<longleftrightarrow> (\<exists>r st'. m st = Some (r, st') \<and> extends st0 st' \<and> expected r)"

lemma endsI: "m st = Some (r, st') \<Longrightarrow> extends st0 st' \<Longrightarrow> expected r \<Longrightarrow> ends m st0 st"
  by (auto simp: ends_def)








lemma innerType_children: "innerType s = s \<or> innerType s \<in> set (children s)"
  by (induction s rule: innerType.induct) auto



lemma v_string_required [simp]: "\<not> isOptional v_string"
  by (simp add: v_string_def required_def)


subsection \<open>Termination\<close>

lemma nodes_self: "s \<in> set (nodes s)"
  by (subst nodes.simps) simp

lemma nodes_closed: "x \<in> set (nodes r) \<Longrightarrow> c \<in> set (children x) \<Longrightarrow> c \<in> set (nodes r)"
proof (induction r rule: nodes.induct)
  case (1 s)
  from "1.prems"(1) consider "x = s" | k where "k \<in> set (children s)" "x \<in> set (nodes k)"
    by (subst (asm) nodes.simps) auto
  then show ?case
  proof cases
    case 1
    with "1.prems"(2) nodes_self[of c] show ?thesis
      by (subst nodes.simps) auto
  next
    case 2
    from "1.IH"[OF 2(1) 2(2) "1.prems"(2)] 2(1) show ?thesis
      by (subst nodes.simps) auto
  qed
qed

lemma nodes_trans: "x \<in> set (nodes r) \<Longrightarrow> y \<in> set (nodes x) \<Longrightarrow> y \<in> set (nodes r)"
proof (induction x arbitrary: y rule: nodes.induct)
  case (1 s)
  from "1.prems"(2) consider "y = s" | k where "k \<in> set (children s)" "y \<in> set (nodes k)"
    by (subst (asm) nodes.simps) auto
  then show ?case
  proof cases
    case 1
    with "1.prems"(1) show ?thesis by simp
  next
    case 2
    from nodes_closed[OF "1.prems"(1) 2(1)] have "k \<in> set (nodes r)" .
    from "1.IH"[OF 2(1) this 2(2)] show ?thesis .
  qed
qed

text \<open>The number of nodes of a schema, each counted as often as it occurs.\<close>

definition weight :: "zschema \<Rightarrow> nat" where
  "weight s = length (nodes s)"





lemma children_rename: "children (rename f u) = map (rename f) (children u)"
proof -
  obtain i d where u: "u = Zod i d" by (cases u)
  show ?thesis unfolding u
    by (cases d) (auto split: option.splits)
qed

lemma nodes_rename: "nodes (rename f u) = map (rename f) (nodes u)"
proof (induction u rule: nodes.induct)
  case (1 s)
  have "concat (map nodes (map (rename f) (children s))) =
      map (rename f) (concat (map nodes (children s)))"
    using "1.IH" by (simp add: map_concat cong: map_cong)
  moreover have "nodes (rename f s) = rename f s # concat (map nodes (children (rename f s)))"
    by (rule nodes.simps)
  moreover have "nodes s = s # concat (map nodes (children s))"
    by (rule nodes.simps)
  ultimately show ?case
    by (simp add: children_rename)
qed

lemma weight_rename [simp]: "weight (rename f u) = weight u"
  by (simp add: weight_def nodes_rename)






fun is_ZodLazy :: "zschema \<Rightarrow> bool" where
  "is_ZodLazy (Zod i (DLazy getter)) = True"
| "is_ZodLazy schema = False"

lemma rename_simps [simp]:
  "is_ZodOptional (rename f u) = is_ZodOptional u"
  "is_ZodDefault (rename f u) = is_ZodDefault u"
  "is_ZodLazy (rename f u) = is_ZodLazy u"
  "innerType (rename f u) = rename f (innerType u)"
  "defaultValue_of (rename f u) = defaultValue_of u"
proof -
  obtain i d where u: "u = Zod i d" by (cases u)
  show "is_ZodOptional (rename f u) = is_ZodOptional u"
    "is_ZodDefault (rename f u) = is_ZodDefault u"
    "is_ZodLazy (rename f u) = is_ZodLazy u"
    "innerType (rename f u) = rename f (innerType u)"
    "defaultValue_of (rename f u) = defaultValue_of u"
    unfolding u by (cases d; simp)+
qed


lemma strip_wrappers_nodes: "strip_wrappers u = (a, opt, d) \<Longrightarrow> a \<in> set (nodes u)"
proof -
  have i: "innerType x \<in> set (nodes r)" if "x \<in> set (nodes r)" for x r
    using innerType_children[of x] that by (auto dest: nodes_closed)
  assume "strip_wrappers u = (a, opt, d)"
  then show ?thesis
    using i[OF nodes_self[of u]] i[OF i[OF nodes_self[of u]]] i[OF i[OF i[OF nodes_self[of u]]]]
      nodes_self[of u]
    by (auto simp: strip_wrappers_def Let_def split: if_splits)
qed






























section \<open>Claims about the mapper\<close>






text \<open>
  C3. The mapper breaks the claim on an object with one schema object in two fields,
  \<open>const o = z.string().optional(); z.object({a: o, b: o})\<close>: the visited set, meant to
  find cycles, is shared by the fields of an object and never shrinks, so field \<open>b\<close>,
  marked optional, maps to the required validator \<open>v.any()\<close>. \<open>zodToConvexFields\<close>
  starts every field from an empty set and maps both fields to optional validators.
\<close>

theorem shared_optional_field:
  "zodToConvex [] []
     (Some (Zod 3 (DObject [(''a'', Zod 2 (DOptional (Zod 0 DString))),
                            (''b'', Zod 2 (DOptional (Zod 0 DString)))])))
     = Some (Returned (v_object [(''a'', v_optional v_string), (''b'', v_any)]))
   \<and> isOptional (v_optional v_string) = True
   \<and> isOptional v_any = False
   \<and> zodToConvexFields [] []
        [(''a'', Some (Zod 2 (DOptional (Zod 0 DString)))),
         (''b'', Some (Zod 2 (DOptional (Zod 0 DString))))]
     = Some (Returned [(''a'', v_optional v_string), (''b'', v_optional v_string)])"
  by code_simp

text \<open>
  C5. The mapper breaks the claim on an object with one schema object with a default in
  two fields, \<open>const d = z.number().default(0); z.object({a: d, b: d})\<close>: field \<open>b\<close> is
  found in the visited set and maps to \<open>v.any()\<close>, with no default recorded.
  \<open>zodToConvexFields\<close> records the default of both fields, on required validators.
\<close>

theorem shared_default_field:
  "zodToConvex [] []
     (Some (Zod 3 (DObject [(''a'', Zod 2 (DDefault (Zod 0 DNumber) (JNum (Fin 0)))),
                            (''b'', Zod 2 (DDefault (Zod 0 DNumber) (JNum (Fin 0))))])))
     = Some (Returned (v_object [(''a'', Validator KFloat64 False (Some (JNum (Fin 0)))),
                                 (''b'', v_any)]))
   \<and> zodDefault v_any = None
   \<and> zodToConvexFields [] []
        [(''a'', Some (Zod 2 (DDefault (Zod 0 DNumber) (JNum (Fin 0))))),
         (''b'', Some (Zod 2 (DDefault (Zod 0 DNumber) (JNum (Fin 0)))))]
     = Some (Returned [(''a'', Validator KFloat64 False (Some (JNum (Fin 0)))),
                       (''b'', Validator KFloat64 False (Some (JNum (Fin 0))))])"
  by code_simp

text \<open>
  C6. The mapper breaks the claim on a record whose value schema is a nullable wrapper
  around an optional schema, \<open>z.record(z.string(), z.number().optional().nullable())\<close>:
  \<open>convertRecordType\<close> looks for an optional wrapper at the top of the value schema, or
  right under a default, finds none, and hands the validator of the value schema, which
  is optional, to \<open>v.record\<close>, which throws. For the value schema
  \<open>z.number().optional()\<close> it maps the optionality to a union with null.
\<close>

theorem record_optional_value_throws:
  "isZodOptional (Zod 4 (DNullable (Zod 3 (DOptional (Zod 2 DNumber))))) = False
   \<and> zodToConvex [] [] (Some (Zod 4 (DNullable (Zod 3 (DOptional (Zod 2 DNumber))))))
     = Some (Returned (v_optional (v_union [v_float64, v_null])))
   \<and> zodToConvex [] []
        (Some (Zod 5 (DRecord (Zod 0 DString)
                        (Some (Zod 4 (DNullable (Zod 3 (DOptional (Zod 2 DNumber)))))))))
     = Some (Raised ''Record validator cannot have optional values'')
   \<and> zodToConvex [] []
        (Some (Zod 5 (DRecord (Zod 0 DString) (Some (Zod 3 (DOptional (Zod 2 DNumber)))))))
     = Some (Returned (Validator (KRecord v_string (v_union [v_float64, v_null])) False None))"
  by code_simp

section \<open>Validation errors\<close>

text \<open>
  A Zod issue as \<open>formatZodIssues\<close> reads it: a path, a code and a message. The path is
  an array of property keys and indices, or some other value, of which only the string
  conversion is read (\<open>None\<close> for \<open>null\<close> and \<open>undefined\<close>).
\<close>

datatype path_segment = Key string | Index nat

datatype issue_path = PathArray "path_segment list" | PathOther "string option"

datatype zod_issue =
  ZodIssue (issue_path: issue_path) (issue_code: string) (issue_message: string)

text \<open>
  A \<open>ZodError\<close>: its issues and the snapshot \<open>JSON.parse(JSON.stringify(error.flatten()))\<close>,
  which is taken as given.
\<close>

datatype zod_error = ZodErrorOf (error_issues: "zod_issue list") (error_flatten: jsval)

text \<open>The object built by \<open>formatZodIssues\<close>, and its entries for the issues.\<close>

record formatted_issue =
  path :: string
  code :: string
  message :: string

record validation_error =
  error :: string
  context_tag :: "string option"
  issues :: "formatted_issue list"
  flatten :: jsval

text \<open>
  What a call can throw: a \<open>ZodError\<close>, a \<open>ConvexError\<close> with its data, or any other
  error, of which the message is kept.
\<close>

datatype exn = ZodError zod_error | ConvexError validation_error | Error string

text \<open>\<open>Array.prototype.join\<close> on strings, and the string of a path segment.\<close>

fun join :: "string list \<Rightarrow> string \<Rightarrow> string" where
  "join [] sep = []"
| "join [s] sep = s"
| "join (s # t # ts) sep = s @ sep @ join (t # ts) sep"

fun segment_string :: "path_segment \<Rightarrow> string" where
  "segment_string (Key k) = k"
| "segment_string (Index n) = string_of_nat n"

definition format_issue :: "zod_issue \<Rightarrow> formatted_issue" where
  "format_issue issue =
     \<lparr>path = (case issue_path issue of
                PathArray segments \<Rightarrow> join (map segment_string segments) ''.''
              | PathOther other \<Rightarrow> (case other of None \<Rightarrow> [] | Some s \<Rightarrow> s)),
      code = issue_code issue,
      message = issue_message issue\<rparr>"

definition formatZodIssues :: "zod_error \<Rightarrow> string option \<Rightarrow> validation_error" where
  "formatZodIssues err tag =
     \<lparr>error = ''ZodValidationError'',
      context_tag = tag,
      issues = map format_issue (error_issues err),
      flatten = error_flatten err\<rparr>"

text \<open>
  \<open>handleZodValidationError\<close> never returns: the result is what it throws, a
  \<open>ConvexError\<close> with the formatted issues for a \<open>ZodError\<close>, and the error itself
  otherwise.
\<close>

fun handleZodValidationError :: "exn \<Rightarrow> string \<Rightarrow> exn" where
  "handleZodValidationError (ZodError e) tag = ConvexError (formatZodIssues e (Some tag))"
| "handleZodValidationError e tag = e"

section \<open>The query wrapper\<close>

text \<open>
  The handler that \<open>zQuery\<close> registers. Zod's \<open>parse\<close> returns the parsed value or
  throws, and so does the wrapped handler; \<open>options_returns\<close> is the schema
  \<open>options.returns\<close>, if any. A thrown error is the left summand of the result.
\<close>

definition zQuery_handler ::
  "ext \<Rightarrow> (zschema \<Rightarrow> jsval \<Rightarrow> exn + jsval) \<Rightarrow> zschema \<Rightarrow> zschema option \<Rightarrow>
   ('ctx \<Rightarrow> jsval \<Rightarrow> exn + jsval) \<Rightarrow> 'ctx \<Rightarrow> jsval \<Rightarrow> exn + jsval" where
  "zQuery_handler x parse zodSchema options_returns handler ctx argsObject =
     (let decoded = fromConvexJS x argsObject zodSchema
      in case parse zodSchema decoded of
           Inl e \<Rightarrow> Inl (handleZodValidationError e ''args'')
         | Inr parsed \<Rightarrow>
             (case handler ctx parsed of
                Inl e \<Rightarrow> Inl e
              | Inr raw \<Rightarrow>
                  (case options_returns of
                     Some returns \<Rightarrow>
                       (case parse returns raw of
                          Inl e \<Rightarrow> Inl (handleZodValidationError e ''returns'')
                        | Inr validated \<Rightarrow> Inr (toConvexJS x (Some returns) validated))
                   | None \<Rightarrow> Inr (toConvexJS1 raw))))"

section \<open>Claims about validation errors\<close>

text \<open>
  C9. When \<open>parse\<close> rejects the decoded arguments with a \<open>ZodError\<close>, the handler of
  \<open>zQuery\<close> throws a \<open>ConvexError\<close> whose data carry the kind \<open>ZodValidationError\<close>, the
  context \<open>args\<close> and one entry for each issue of the error, in order, with the path
  joined by dots, the code and the message; when \<open>parse\<close> rejects the handler's result
  against \<open>options.returns\<close>, the same with the context \<open>returns\<close>. Any error thrown by
  either \<open>parse\<close> reaches the caller as an error: no result is returned.
\<close>

theorem validation_error_structured:
  "(parse zodSchema (fromConvexJS x argsObject zodSchema) = Inl (ZodError err) \<longrightarrow>
      zQuery_handler x parse zodSchema options_returns handler ctx argsObject =
        Inl (ConvexError
               \<lparr>error = ''ZodValidationError'', context_tag = Some ''args'',
                issues = map format_issue (error_issues err), flatten = error_flatten err\<rparr>))
   \<and> (parse zodSchema (fromConvexJS x argsObject zodSchema) = Inr parsed \<and>
        handler ctx parsed = Inr raw \<and> options_returns = Some returns \<and>
        parse returns raw = Inl (ZodError err) \<longrightarrow>
      zQuery_handler x parse zodSchema options_returns handler ctx argsObject =
        Inl (ConvexError
               \<lparr>error = ''ZodValidationError'', context_tag = Some ''returns'',
                issues = map format_issue (error_issues err), flatten = error_flatten err\<rparr>))
   \<and> (parse zodSchema (fromConvexJS x argsObject zodSchema) = Inl e \<longrightarrow>
        (\<exists>e'. zQuery_handler x parse zodSchema options_returns handler ctx argsObject = Inl e'))
   \<and> (parse zodSchema (fromConvexJS x argsObject zodSchema) = Inr parsed \<and>
        handler ctx parsed = Inr raw \<and> options_returns = Some returns \<and>
        parse returns raw = Inl e \<longrightarrow>
        (\<exists>e'. zQuery_handler x parse zodSchema options_returns handler ctx argsObject = Inl e'))
   \<and> length (map format_issue (error_issues err)) = length (error_issues err)
   \<and> (i < length (error_issues err) \<and> issue_path (error_issues err ! i) = PathArray segments \<longrightarrow>
        map format_issue (error_issues err) ! i =
          \<lparr>path = join (map segment_string segments) ''.'',
           code = issue_code (error_issues err ! i),
           message = issue_message (error_issues err ! i)\<rparr>)"
  by (cases e) (auto simp: zQuery_handler_def Let_def formatZodIssues_def format_issue_def)

text \<open>
  A \<open>parse\<close> for the examples: it returns a value the schema accepts and throws a
  \<open>ZodError\<close> with one issue at \<open>items[0].age\<close> otherwise.
\<close>

definition age_issue :: zod_issue where
  "age_issue =
     ZodIssue (PathArray [Key ''items'', Index 0, Key ''age'']) ''invalid_type''
       ''Invalid input: expected number''"

definition sample_parse :: "zschema \<Rightarrow> jsval \<Rightarrow> exn + jsval" where
  "sample_parse schema v =
     (if accepts schema v then Inr v else Inl (ZodError (ZodErrorOf [age_issue] (JObj []))))"

theorem validation_error_structured_witness:
  "zQuery_handler plain_ext sample_parse (Zod 3 (DObject [(''age'', Zod 2 DNumber)])) None
       (\<lambda>ctx args. Inr JNull) () (JObj [(''age'', JStr ''old'')])
     = Inl (ConvexError
              \<lparr>error = ''ZodValidationError'', context_tag = Some ''args'',
               issues = [\<lparr>path = ''items.0.age'', code = ''invalid_type'',
                          message = ''Invalid input: expected number''\<rparr>],
               flatten = JObj []\<rparr>)
   \<and> zQuery_handler plain_ext sample_parse (Zod 3 (DObject [(''age'', Zod 2 DNumber)]))
       (Some (Zod 4 DString)) (\<lambda>ctx args. Inr JNull) () (JObj [(''age'', JNum (Fin 30))])
     = Inl (ConvexError
              \<lparr>error = ''ZodValidationError'', context_tag = Some ''returns'',
               issues = [\<lparr>path = ''items.0.age'', code = ''invalid_type'',
                          message = ''Invalid input: expected number''\<rparr>],
               flatten = JObj []\<rparr>)
   \<and> zQuery_handler plain_ext sample_parse (Zod 3 (DObject [(''age'', Zod 2 DNumber)]))
       (Some (Zod 4 DNull)) (\<lambda>ctx args. Inr JNull) () (JObj [(''age'', JNum (Fin 30))])
     = Inr JNull"
proof -
  let ?S = "Zod 3 (DObject [(''age'', Zod 2 DNumber)])"
  let ?H = "\<lambda>ctx args. Inr JNull :: exn + jsval"
  let ?err = "ZodErrorOf [age_issue] (JObj [])"
  let ?good = "JObj [(''age'', JNum (Fin 30))]"
  have a: "sample_parse ?S (fromConvexJS plain_ext (JObj [(''age'', JStr ''old'')]) ?S)
      = Inl (ZodError ?err)"
    by code_simp
  have b: "sample_parse ?S (fromConvexJS plain_ext ?good ?S) = Inr ?good"
    by code_simp
  have c: "sample_parse (Zod 4 DString) JNull = Inl (ZodError ?err)"
    by code_simp
  have f: "map format_issue [age_issue] =
      [\<lparr>path = ''items.0.age'', code = ''invalid_type'',
        message = ''Invalid input: expected number''\<rparr>]"
    by code_simp
  have 1: "zQuery_handler plain_ext sample_parse ?S None ?H () (JObj [(''age'', JStr ''old'')])
      = Inl (ConvexError
              \<lparr>error = ''ZodValidationError'', context_tag = Some ''args'',
               issues = map format_issue (error_issues ?err), flatten = error_flatten ?err\<rparr>)"
    using validation_error_structured[where parse = sample_parse and zodSchema = ?S
        and x = plain_ext and argsObject = "JObj [(''age'', JStr ''old'')]" and err = ?err
        and options_returns = None and handler = ?H and ctx = "()"] a
    by blast
  have 2: "zQuery_handler plain_ext sample_parse ?S (Some (Zod 4 DString)) ?H () ?good
      = Inl (ConvexError
              \<lparr>error = ''ZodValidationError'', context_tag = Some ''returns'',
               issues = map format_issue (error_issues ?err), flatten = error_flatten ?err\<rparr>)"
    using validation_error_structured[where parse = sample_parse and zodSchema = ?S
        and x = plain_ext and argsObject = ?good and err = ?err and parsed = ?good
        and raw = JNull and returns = "Zod 4 DString"
        and options_returns = "Some (Zod 4 DString)" and handler = ?H and ctx = "()"] b c
    by blast
  have 3: "zQuery_handler plain_ext sample_parse ?S (Some (Zod 4 DNull)) ?H () ?good = Inr JNull"
    by code_simp
  from 1 2 3 f show ?thesis by simp
qed

section \<open>The codec object\<close>

text \<open>
  \<open>instanceof z.ZodObject\<close>.
\<close>

fun is_ZodObject :: "zschema \<Rightarrow> bool" where
  "is_ZodObject (Zod i (DObject shape)) = True"
| "is_ZodObject s = False"

text \<open>
  The object that \<open>convexCodec\<close> returns is given by what it holds: the validator,
  computed when the codec is built, and the schema that its three functions close over.
  \<open>convexCodec\<close> throws what \<open>zodToConvex\<close> throws.
\<close>

record convex_codec =
  validator :: validator
  codec_schema :: zschema

definition convexCodec ::
  "ext \<Rightarrow> (nat \<times> zschema) list \<Rightarrow> zschema \<Rightarrow> convex_codec outcome option" where
  "convexCodec x bindings s =
     (case zodToConvex (registry x) bindings (Some s) of
        None \<Rightarrow> None
      | Some (Raised e) \<Rightarrow> Some (Raised e)
      | Some (Returned v) \<Rightarrow> Some (Returned \<lparr>validator = v, codec_schema = s\<rparr>))"

definition encode :: "ext \<Rightarrow> convex_codec \<Rightarrow> jsval \<Rightarrow> jsval" where
  "encode x c v = toConvexJS x (Some (codec_schema c)) v"

definition decode :: "ext \<Rightarrow> convex_codec \<Rightarrow> jsval \<Rightarrow> jsval" where
  "decode x c v = fromConvexJS x v (codec_schema c)"

text \<open>
  The properties of a JavaScript object are listed in the order in which the language
  enumerates them: the keys that are array indices (the decimal form of a number below
  \<open>2\<^sup>3\<^sup>2 - 1\<close>) first, in ascending order, then the other keys in the order in which
  they were added.
\<close>

definition digits_value :: "string \<Rightarrow> int" where
  "digits_value k = foldl (\<lambda>n c. 10 * n + (of_char c - 48)) 0 k"

definition array_index :: "string \<Rightarrow> int option" where
  "array_index k =
     (if k \<noteq> [] \<and> list_all (\<lambda>c. 48 \<le> (of_char c :: int) \<and> (of_char c :: int) \<le> 57) k \<and>
         (k = ''0'' \<or> hd k \<noteq> CHR ''0'') \<and> digits_value k < 4294967295
      then Some (digits_value k) else None)"

fun insert_index ::
  "int \<Rightarrow> string \<Rightarrow> jsval \<Rightarrow> (string \<times> jsval) list \<Rightarrow> (string \<times> jsval) list" where
  "insert_index n k v [] = [(k, v)]"
| "insert_index n k v (p # ps) =
     (case array_index (fst p) of
        Some m \<Rightarrow> if m < n then p # insert_index n k v ps else (k, v) # p # ps
      | None \<Rightarrow> (k, v) # p # ps)"

text \<open>
  Setting a property: an own property keeps its place, a new array index goes to its
  place among the indices, any other new key to the end.
\<close>

definition set_property ::
  "(string \<times> jsval) list \<Rightarrow> string \<Rightarrow> jsval \<Rightarrow> (string \<times> jsval) list" where
  "set_property ps k v =
     (if k \<in> fst ` set ps then map (\<lambda>p. if fst p = k then (k, v) else p) ps
      else case array_index k of
             Some n \<Rightarrow> insert_index n k v ps
           | None \<Rightarrow> ps @ [(k, v)])"

text \<open>
  The keys given to \<open>pick\<close>: an array of keys or an object of flags. From an array,
  \<open>reduce\<close> builds the object that holds \<open>true\<close> under each key, setting one property
  after the other on a copy of the object so far.
\<close>

datatype pick_keys = KeyArray "string list" | KeyRecord "(string \<times> jsval) list"

definition pickObj :: "pick_keys \<Rightarrow> (string \<times> jsval) list" where
  "pickObj keys =
     (case keys of
        KeyArray ks \<Rightarrow> foldl (\<lambda>acc k. set_property acc k (JBool True)) [] ks
      | KeyRecord flags \<Rightarrow> flags)"

text \<open>
  \<open>pick\<close>. Zod's own \<open>schema.pick\<close> is a parameter: it returns the picked schema or
  throws.
\<close>

definition pick ::
  "ext \<Rightarrow> (nat \<times> zschema) list \<Rightarrow> (zschema \<Rightarrow> (string \<times> jsval) list \<Rightarrow> zschema outcome) \<Rightarrow>
   convex_codec \<Rightarrow> pick_keys \<Rightarrow> convex_codec outcome option" where
  "pick x bindings zod_pick c keys =
     (if \<not> is_ZodObject (codec_schema c)
      then Some (Raised ''pick() can only be called on object schemas'')
      else case zod_pick (codec_schema c) (pickObj keys) of
             Raised e \<Rightarrow> Some (Raised e)
           | Returned pickedSchema \<Rightarrow> convexCodec x bindings pickedSchema)"

section \<open>Claims about the codec object\<close>

text \<open>The order of the keys of an object: indices in ascending order, then the rest.\<close>

definition key_before :: "string \<Rightarrow> string \<Rightarrow> bool" where
  "key_before a b =
     (case array_index a of
        Some m \<Rightarrow> (case array_index b of Some n \<Rightarrow> m \<le> n | None \<Rightarrow> True)
      | None \<Rightarrow> array_index b = None)"

lemma insert_index_keys: "fst ` set (insert_index n k v ps) = insert k (fst ` set ps)"
  by (induction ps) (auto split: option.splits)

lemma insert_index_map_of:
  "k \<notin> fst ` set ps \<Longrightarrow> map_of (insert_index n k v ps) = (map_of ps)(k \<mapsto> v)"
proof (induction ps)
  case Nil
  then show ?case by simp
next
  case (Cons p ps)
  then show ?case
    by (cases p) (auto simp: fun_eq_iff split: option.splits)
qed

lemma insert_index_distinct:
  "k \<notin> fst ` set ps \<Longrightarrow> distinct (map fst ps) \<Longrightarrow> distinct (map fst (insert_index n k v ps))"
proof (induction ps)
  case Nil
  then show ?case by simp
next
  case (Cons p ps)
  then show ?case
    using insert_index_keys[of n k v ps]
    by (auto split: option.splits)
qed

lemma insert_index_sorted:
  "array_index k = Some n \<Longrightarrow> sorted_wrt key_before (map fst ps) \<Longrightarrow>
   sorted_wrt key_before (map fst (insert_index n k v ps))"
proof (induction ps)
  case Nil
  then show ?case by simp
next
  case (Cons p ps)
  show ?case
  proof (cases "array_index (fst p)")
    case None
    with Cons.prems have "\<forall>q\<in>set ps. array_index (fst q) = None"
      by (auto simp: key_before_def)
    with None Cons.prems show ?thesis
      by (auto simp: key_before_def)
  next
    case (Some m)
    show ?thesis
    proof (cases "m < n")
      case True
      have "key_before (fst p) q" if "q \<in> fst ` set (insert_index n k v ps)" for q
        using that Cons.prems Some True
        by (auto simp: insert_index_keys key_before_def)
      with True Some Cons show ?thesis by auto
    next
      case False
      have "key_before k (fst q)" if "q \<in> set ps" for q
      proof -
        from Cons.prems(2) that have "key_before (fst p) (fst q)" by auto
        with Some False Cons.prems(1) show ?thesis
          by (auto simp: key_before_def split: option.splits)
      qed
      with False Some Cons.prems show ?thesis
        by (auto simp: key_before_def)
    qed
  qed
qed

lemma map_fst_update [simp]:
  "map (fst \<circ> (\<lambda>p. if fst p = k then (k, v) else p)) ps = map fst ps"
  by (induction ps) auto

lemma set_property_keys: "fst ` set (set_property ps k v) = insert k (fst ` set ps)"
proof (cases "k \<in> fst ` set ps")
  case True
  have "fst ` set (map (\<lambda>p. if fst p = k then (k, v) else p) ps) = set (map fst ps)"
    by (simp flip: set_map)
  with True show ?thesis by (auto simp: set_property_def)
next
  case False
  then show ?thesis
    by (auto simp: set_property_def insert_index_keys split: option.splits)
qed

lemma set_property_map_of:
  "map_of (set_property ps k v) = (map_of ps)(k \<mapsto> v)"
proof (cases "k \<in> fst ` set ps")
  case False
  then have "map_of ps k = None" by (simp add: map_of_eq_None_iff)
  with False show ?thesis
    by (auto simp: set_property_def insert_index_map_of fun_eq_iff map_add_def
          split: option.splits)
next
  case True
  have "map_of (map (\<lambda>p. if fst p = k then (k, v) else p) ps) x =
      (if x = k then (if k \<in> fst ` set ps then Some v else None) else map_of ps x)" for x
    by (induction ps) (force simp: image_iff)+
  with True show ?thesis by (auto simp: set_property_def fun_eq_iff)
qed

lemma set_property_distinct:
  "distinct (map fst ps) \<Longrightarrow> distinct (map fst (set_property ps k v))"
  by (auto simp: set_property_def insert_index_distinct split: option.splits)

lemma set_property_sorted:
  assumes "sorted_wrt key_before (map fst ps)"
  shows "sorted_wrt key_before (map fst (set_property ps k v))"
proof (cases "k \<in> fst ` set ps")
  case True
  with assms show ?thesis by (simp add: set_property_def)
next
  case False
  show ?thesis
  proof (cases "array_index k")
    case (Some n)
    with False assms show ?thesis by (simp add: set_property_def insert_index_sorted)
  next
    case None
    with False assms show ?thesis
      by (auto simp: set_property_def sorted_wrt_append key_before_def split: option.splits)
  qed
qed

lemma pickObj_fold:
  "distinct (map fst acc) \<Longrightarrow> sorted_wrt key_before (map fst acc) \<Longrightarrow>
   distinct (map fst (foldl (\<lambda>acc k. set_property acc k (JBool True)) acc ks)) \<and>
   sorted_wrt key_before (map fst (foldl (\<lambda>acc k. set_property acc k (JBool True)) acc ks)) \<and>
   map_of (foldl (\<lambda>acc k. set_property acc k (JBool True)) acc ks) k =
     (if k \<in> set ks then Some (JBool True) else map_of acc k)"
proof (induction ks arbitrary: acc)
  case Nil
  then show ?case by simp
next
  case (Cons a ks)
  from Cons.IH[of "set_property acc a (JBool True)"] Cons.prems
  show ?case
    by (auto simp: set_property_distinct set_property_sorted set_property_map_of)
qed

lemma pickObj_plain:
  "distinct (ks @ ls) \<Longrightarrow> \<forall>k\<in>set ls. array_index k = None \<Longrightarrow>
   foldl (\<lambda>acc k. set_property acc k (JBool True)) (map (\<lambda>k. (k, JBool True)) ks) ls =
   map (\<lambda>k. (k, JBool True)) (ks @ ls)"
proof (induction ls arbitrary: ks)
  case Nil
  then show ?case by simp
next
  case (Cons l ls)
  have "l \<notin> fst ` set (map (\<lambda>k. (k, JBool True)) ks)"
    using Cons.prems by (auto simp: image_iff)
  then have "set_property (map (\<lambda>k. (k, JBool True)) ks) l (JBool True) =
      map (\<lambda>k. (k, JBool True)) (ks @ [l])"
    using Cons.prems(2) by (simp add: set_property_def)
  moreover have "distinct ((ks @ [l]) @ ls)" using Cons.prems by simp
  ultimately show ?case using Cons.IH[of "ks @ [l]"] Cons.prems(2) by simp
qed

text \<open>
  C10. On a codec whose schema is not an object schema, \<open>pick\<close> throws the error
  \<open>pick() can only be called on object schemas\<close>. On a codec whose schema is an object
  schema it hands the keys to \<open>schema.pick\<close>, an object of flags as it is and an array as
  the object that holds \<open>true\<close> under each of its keys, and returns what \<open>convexCodec\<close>
  returns for the picked schema (what \<open>schema.pick\<close> or \<open>convexCodec\<close> throws,
  \<open>pick\<close> throws). A codec returned by \<open>convexCodec\<close> holds the schema it was built
  from and the validator of that schema, and encodes and decodes by that schema. The
  object built from an array has exactly the keys of the array, each once, in the order
  of a JavaScript object: as in the array when the keys are distinct and none is an array
  index.
\<close>

theorem pick_object_only:
  "(\<not> is_ZodObject (codec_schema c) \<longrightarrow>
      pick x bindings zod_pick c keys =
        Some (Raised ''pick() can only be called on object schemas''))
   \<and> (is_ZodObject (codec_schema c) \<longrightarrow>
        pick x bindings zod_pick c keys =
          (case zod_pick (codec_schema c) (pickObj keys) of
             Raised e \<Rightarrow> Some (Raised e)
           | Returned pickedSchema \<Rightarrow> convexCodec x bindings pickedSchema))
   \<and> (convexCodec x bindings s = Some (Returned c) \<longrightarrow>
        codec_schema c = s \<and>
        zodToConvex (registry x) bindings (Some s) = Some (Returned (validator c)) \<and>
        encode x c v = toConvexJS x (Some s) v \<and>
        decode x c v = fromConvexJS x v s)
   \<and> pickObj (KeyRecord flags) = flags
   \<and> map_of (pickObj (KeyArray ks)) k = (if k \<in> set ks then Some (JBool True) else None)
   \<and> distinct (map fst (pickObj (KeyArray ks)))
   \<and> sorted_wrt key_before (map fst (pickObj (KeyArray ks)))
   \<and> (distinct ks \<and> (\<forall>k\<in>set ks. array_index k = None) \<longrightarrow>
        pickObj (KeyArray ks) = map (\<lambda>k. (k, JBool True)) ks)"
proof -
  have f: "distinct (map fst (pickObj (KeyArray ks))) \<and>
      sorted_wrt key_before (map fst (pickObj (KeyArray ks))) \<and>
      map_of (pickObj (KeyArray ks)) k = (if k \<in> set ks then Some (JBool True) else None)"
    using pickObj_fold[of "[]" ks k] by (simp add: pickObj_def)
  have p: "pickObj (KeyArray ks) = map (\<lambda>k. (k, JBool True)) ks"
    if "distinct ks" "\<forall>k\<in>set ks. array_index k = None"
    using pickObj_plain[of "[]" ks] that by (simp add: pickObj_def)
  have c: "codec_schema c = s \<and>
        zodToConvex (registry x) bindings (Some s) = Some (Returned (validator c)) \<and>
        encode x c v = toConvexJS x (Some s) v \<and>
        decode x c v = fromConvexJS x v s"
    if "convexCodec x bindings s = Some (Returned c)"
    using that
    by (auto simp: convexCodec_def encode_def decode_def split: option.splits outcome.splits)
  show ?thesis
    using f p c by (simp add: pick_def pickObj_def)
qed

text \<open>
  Zod's \<open>pick\<close> for the examples: the fields of the shape named by the flags object with a
  true flag, in the order of that object, in a new object schema; it throws on a key that
  the shape does not have.
\<close>

fun zod_pick_fields ::
  "(string \<times> zschema) list \<Rightarrow> (string \<times> jsval) list \<Rightarrow> (string \<times> zschema) list option" where
  "zod_pick_fields shape [] = Some []"
| "zod_pick_fields shape ((k, flag) # flags) =
     (case map_of shape k of
        None \<Rightarrow> None
      | Some field \<Rightarrow>
          map_option (\<lambda>rest. if flag = JBool True then (k, field) # rest else rest)
            (zod_pick_fields shape flags))"

fun zod_pick_example :: "nat \<Rightarrow> zschema \<Rightarrow> (string \<times> jsval) list \<Rightarrow> zschema outcome" where
  "zod_pick_example fresh (Zod i (DObject shape)) flags =
     (case zod_pick_fields shape flags of
        None \<Rightarrow> Raised ''Unrecognized key''
      | Some picked \<Rightarrow> Returned (Zod fresh (DObject picked)))"
| "zod_pick_example fresh s flags = Raised ''not an object schema''"

definition user_schema :: zschema where
  "user_schema =
     Zod 10 (DObject [(''name'', Zod 0 DString), (''age'', Zod 2 DNumber),
                      (''joined'', Zod 3 DDate)])"

theorem pick_object_only_witness:
  "convexCodec plain_ext [] (Zod 0 DString)
     = Some (Returned \<lparr>validator = v_string, codec_schema = Zod 0 DString\<rparr>)
   \<and> pick plain_ext [] (zod_pick_example 11) \<lparr>validator = v_string, codec_schema = Zod 0 DString\<rparr>
       (KeyArray [''name''])
     = Some (Raised ''pick() can only be called on object schemas'')
   \<and> convexCodec plain_ext [] user_schema
     = Some (Returned
         \<lparr>validator = v_object [(''name'', v_string), (''age'', v_float64), (''joined'', v_float64)],
          codec_schema = user_schema\<rparr>)
   \<and> pick plain_ext [] (zod_pick_example 11)
       \<lparr>validator = v_object [(''name'', v_string), (''age'', v_float64), (''joined'', v_float64)],
        codec_schema = user_schema\<rparr>
       (KeyArray [''name'', ''joined''])
     = Some (Returned
         \<lparr>validator = v_object [(''name'', v_string), (''joined'', v_float64)],
          codec_schema = Zod 11 (DObject [(''name'', Zod 0 DString), (''joined'', Zod 3 DDate)])\<rparr>)
   \<and> pick plain_ext [] (zod_pick_example 11)
       \<lparr>validator = v_object [(''name'', v_string), (''age'', v_float64), (''joined'', v_float64)],
        codec_schema = user_schema\<rparr>
       (KeyRecord [(''name'', JBool True), (''joined'', JBool True)])
     = Some (Returned
         \<lparr>validator = v_object [(''name'', v_string), (''joined'', v_float64)],
          codec_schema = Zod 11 (DObject [(''name'', Zod 0 DString), (''joined'', Zod 3 DDate)])\<rparr>)
   \<and> pickObj (KeyArray [''name'', ''joined'']) = [(''name'', JBool True), (''joined'', JBool True)]
   \<and> pickObj (KeyArray [''b'', ''10'', ''a'', ''2'', ''b''])
     = [(''2'', JBool True), (''10'', JBool True), (''b'', JBool True), (''a'', JBool True)]"
proof -
  let ?P = "Zod 11 (DObject [(''name'', Zod 0 DString), (''joined'', Zod 3 DDate)])"
  let ?cs = "\<lparr>validator = v_string, codec_schema = Zod 0 DString\<rparr>"
  let ?cu = "\<lparr>validator = v_object [(''name'', v_string), (''age'', v_float64), (''joined'', v_float64)],
        codec_schema = user_schema\<rparr>"
  let ?cp = "\<lparr>validator = v_object [(''name'', v_string), (''joined'', v_float64)],
          codec_schema = ?P\<rparr>"
  have s: "convexCodec plain_ext [] (Zod 0 DString) = Some (Returned ?cs)" by code_simp
  have u: "convexCodec plain_ext [] user_schema = Some (Returned ?cu)" by code_simp
  have v: "convexCodec plain_ext [] ?P = Some (Returned ?cp)" by code_simp
  have n: "\<not> is_ZodObject (codec_schema ?cs)" by simp
  have o: "is_ZodObject (codec_schema ?cu)" by (simp add: user_schema_def)
  have k: "distinct [''name'', ''joined''] \<and>
      (\<forall>k\<in>set [''name'', ''joined'']. array_index k = None)"
    by code_simp
  from pick_object_only[where ks = "[''name'', ''joined'']"] k
  have po: "pickObj (KeyArray [''name'', ''joined'']) = [(''name'', JBool True), (''joined'', JBool True)]"
    by simp
  have p: "zod_pick_example 11 (codec_schema ?cu) (pickObj (KeyArray [''name'', ''joined'']))
      = Returned ?P"
    unfolding po by code_simp
  have q: "zod_pick_example 11 (codec_schema ?cu)
        (pickObj (KeyRecord [(''name'', JBool True), (''joined'', JBool True)]))
      = Returned ?P"
    by code_simp
  have 1: "pick plain_ext [] (zod_pick_example 11) ?cs (KeyArray [''name''])
      = Some (Raised ''pick() can only be called on object schemas'')"
    using pick_object_only[where c = ?cs and x = plain_ext and bindings = "[]"
        and zod_pick = "zod_pick_example 11" and keys = "KeyArray [''name'']"] n
    by blast
  have 2: "pick plain_ext [] (zod_pick_example 11) ?cu (KeyArray [''name'', ''joined''])
      = Some (Returned ?cp)"
    using pick_object_only[where c = ?cu and x = plain_ext and bindings = "[]"
        and zod_pick = "zod_pick_example 11" and keys = "KeyArray [''name'', ''joined'']"] o p v
    by simp
  have 3: "pick plain_ext [] (zod_pick_example 11) ?cu
        (KeyRecord [(''name'', JBool True), (''joined'', JBool True)])
      = Some (Returned ?cp)"
    using pick_object_only[where c = ?cu and x = plain_ext and bindings = "[]"
        and zod_pick = "zod_pick_example 11"
        and keys = "KeyRecord [(''name'', JBool True), (''joined'', JBool True)]"] o q v
    by simp
  have 4: "pickObj (KeyArray [''b'', ''10'', ''a'', ''2'', ''b''])
     = [(''2'', JBool True), (''10'', JBool True), (''b'', JBool True), (''a'', JBool True)]"
    by code_simp
  from s u 1 2 3 4 po show ?thesis by simp
qed

end
